theory Spec2Isabelle
  imports Complex_Main
begin

section \<open>The storybook reader client: capture, extraction, synthesis, playback\<close>

text \<open>
  This theory embeds the orchestration core of the mobile client (\<^verbatim>\<open>mobile/App.tsx\<close>),
  the seek control of the stand-alone audio player component
  (\<^verbatim>\<open>mobile/src/components/AudioPlayer.tsx\<close>) and the request configuration of the
  remote service client (\<^verbatim>\<open>src/services/api.ts\<close>, reproduced in the README).

  Conventions of the embedding.
  \<^item> The component is a record: one field per \<^verbatim>\<open>useState\<close> cell and per \<^verbatim>\<open>useRef\<close> cell.
    A handler reads React state only before its first \<^verbatim>\<open>await\<close> and reads only refs
    afterwards, so the value a handler sees is the value of the field when it runs.
  \<^item> JavaScript is single threaded. An \<^verbatim>\<open>async\<close> function runs without interruption up
    to an \<^verbatim>\<open>await\<close> on a native or network promise; there it is parked as a \<open>task\<close> in
    the field \<open>pending\<close>. The environment later settles the promise with an \<open>outcome\<close>
    (event \<open>Settle\<close>) and the function runs on to its next \<^verbatim>\<open>await\<close>. An \<^verbatim>\<open>await\<close> on an
    \<^verbatim>\<open>async\<close> function of the component that returns without awaiting anything itself
    resumes in a microtask, before any other event, and is not a suspension point.
  \<^item> Every setter call, alert, network request and native call is appended to the field
    \<open>trace\<close>, in program order. A promise rejection that no handler catches is
    recorded there as \<open>UnhandledRejection\<close>.
  \<^item> The audio engine is modelled by the list \<open>loaded\<close> of the sound handles it has
    created and not yet unloaded; a successful \<^verbatim>\<open>Audio.Sound.createAsync\<close> returns a
    fresh handle.
  \<^item> Strings are lists of 8-bit characters; \<^verbatim>\<open>String.prototype.trim\<close> is modelled on the
    white space characters of that range.
\<close>

subsection \<open>Values\<close>

datatype Screen = Home | Camera | Player

datatype ServerStatus = Checking | Connected | ServerError

type_synonym handle = nat

text \<open>A thrown value: an \<^verbatim>\<open>Error\<close> instance with its message, or anything else.\<close>

datatype thrown = JsError string | NotAnError

text \<open>Who awaits \<^verbatim>\<open>cleanupSound(...)\<close>: where control returns when it is done.\<close>

datatype caller =
    CallerHandleCapture
  | CallerGenerateAudio nat string
  | CallerGoHome
  | CallerTakeAnother

text \<open>The suspension points of \<^verbatim>\<open>App.tsx\<close>; a synthesis task carries its \<^verbatim>\<open>requestId\<close>.\<close>

datatype task =
    AwaitHealth
  | AwaitStop handle caller
  | AwaitUnload handle caller
  | AwaitTakePicture
  | AwaitManipulate
  | AwaitReadFile
  | AwaitOcrFetch
  | AwaitOcrErrorJson
  | AwaitOcrJson
  | AwaitTtsFetch nat
  | AwaitTtsErrorJson nat
  | AwaitTtsJson nat
  | AwaitWriteFile nat
  | AwaitSetAudioMode nat
  | AwaitCreate nat
  | AwaitPause handle
  | AwaitPlay handle

text \<open>What a promise settles with.\<close>

datatype outcome =
    Rejected thrown
  | Resolved
  | Response bool
  | Photo "string option"
  | Uri string
  | Base64 string
  | ErrorBody string
  | OcrBody string string
  | TtsBody string

datatype obs =
    SetScreen Screen
  | SetServerStatus ServerStatus
  | SetIsProcessing bool
  | SetLoadingText string
  | SetExtractedText string
  | SetSound "handle option"
  | SetIsPlaying bool
  | SetAudioReady bool
  | SetIsGeneratingAudio bool
  | SetTtsError "string option"
  | SetDetectedLanguage string
  | Alert string string
  | RequestPermission
  | FetchHealth
  | FetchOcr string string
  | FetchTts string string
  | TakePictureAsync
  | ManipulateAsync string
  | ReadAsStringAsync string
  | WriteAsStringAsync string
  | SetAudioModeAsync
  | CreateAsync
  | StopAsync handle
  | UnloadAsync handle
  | PauseAsync handle
  | PlayAsync handle
  | UnhandledRejection thrown

record App =
  screen :: Screen
  serverStatus :: ServerStatus
  permission :: bool
  isProcessing :: bool
  loadingText :: string
  extractedText :: string
  sound :: "handle option"
  isPlaying :: bool
  audioReady :: bool
  isGeneratingAudio :: bool
  ttsError :: "string option"
  detectedLanguage :: string
  soundRef :: "handle option"
  ttsRequestId :: nat
  pending :: "task list"
  trace :: "obs list"
  loaded :: "handle list"
  nextHandle :: handle

definition App_init :: App where
  "App_init = \<lparr> screen = Home, serverStatus = Checking, permission = False,
     isProcessing = False, loadingText = [], extractedText = [], sound = None,
     isPlaying = False, audioReady = False, isGeneratingAudio = False, ttsError = None,
     detectedLanguage = ''auto'', soundRef = None, ttsRequestId = 0, pending = [],
     trace = [], loaded = [], nextHandle = 0 \<rparr>"

subsection \<open>JavaScript idioms\<close>

definition or_default :: "string \<Rightarrow> string \<Rightarrow> string" where
  \<comment> \<open>\<^verbatim>\<open>a || d\<close> on strings: the empty (or missing) string is falsy\<close>
  "or_default a d = (if a = [] then d else a)"

fun message_or :: "thrown \<Rightarrow> string \<Rightarrow> string" where
  \<comment> \<open>\<^verbatim>\<open>error instanceof Error ? error.message : d\<close>\<close>
  "message_or (JsError m) d = m"
| "message_or NotAnError d = d"

definition truthy :: "string option \<Rightarrow> bool" where
  \<comment> \<open>truthiness of a \<^verbatim>\<open>string | null\<close>\<close>
  "truthy v = (case v of None \<Rightarrow> False | Some m \<Rightarrow> m \<noteq> [])"

definition js_whitespace :: "char \<Rightarrow> bool" where
  "js_whitespace c = ((of_char c :: nat) \<in> {9, 10, 11, 12, 13, 32, 160})"

definition blank :: "string \<Rightarrow> bool" where
  \<comment> \<open>\<^verbatim>\<open>!t || !t.trim()\<close>\<close>
  "blank t = list_all js_whitespace t"

subsection \<open>Setters, effects, suspension\<close>

definition emit :: "obs \<Rightarrow> App \<Rightarrow> App" where
  "emit e s = s\<lparr>trace := trace s @ [e]\<rparr>"

definition await :: "task \<Rightarrow> App \<Rightarrow> App" where
  "await t s = s\<lparr>pending := pending s @ [t]\<rparr>"

definition setScreen :: "Screen \<Rightarrow> App \<Rightarrow> App" where
  "setScreen v s = emit (SetScreen v) (s\<lparr>screen := v\<rparr>)"

definition setServerStatus :: "ServerStatus \<Rightarrow> App \<Rightarrow> App" where
  "setServerStatus v s = emit (SetServerStatus v) (s\<lparr>serverStatus := v\<rparr>)"

definition setIsProcessing :: "bool \<Rightarrow> App \<Rightarrow> App" where
  "setIsProcessing v s = emit (SetIsProcessing v) (s\<lparr>isProcessing := v\<rparr>)"

definition setLoadingText :: "string \<Rightarrow> App \<Rightarrow> App" where
  "setLoadingText v s = emit (SetLoadingText v) (s\<lparr>loadingText := v\<rparr>)"

definition setExtractedText :: "string \<Rightarrow> App \<Rightarrow> App" where
  "setExtractedText v s = emit (SetExtractedText v) (s\<lparr>extractedText := v\<rparr>)"

definition setSound :: "handle option \<Rightarrow> App \<Rightarrow> App" where
  "setSound v s = emit (SetSound v) (s\<lparr>sound := v\<rparr>)"

definition setIsPlaying :: "bool \<Rightarrow> App \<Rightarrow> App" where
  "setIsPlaying v s = emit (SetIsPlaying v) (s\<lparr>isPlaying := v\<rparr>)"

definition setAudioReady :: "bool \<Rightarrow> App \<Rightarrow> App" where
  "setAudioReady v s = emit (SetAudioReady v) (s\<lparr>audioReady := v\<rparr>)"

definition setIsGeneratingAudio :: "bool \<Rightarrow> App \<Rightarrow> App" where
  "setIsGeneratingAudio v s = emit (SetIsGeneratingAudio v) (s\<lparr>isGeneratingAudio := v\<rparr>)"

definition setTtsError :: "string option \<Rightarrow> App \<Rightarrow> App" where
  "setTtsError v s = emit (SetTtsError v) (s\<lparr>ttsError := v\<rparr>)"

definition setDetectedLanguage :: "string \<Rightarrow> App \<Rightarrow> App" where
  "setDetectedLanguage v s = emit (SetDetectedLanguage v) (s\<lparr>detectedLanguage := v\<rparr>)"

subsection \<open>The handlers of \<^verbatim>\<open>App.tsx\<close>\<close>

definition cameraRef :: "App \<Rightarrow> bool" where
  \<comment> \<open>\<^verbatim>\<open>cameraRef.current\<close> is set while the \<^verbatim>\<open>CameraView\<close> is rendered\<close>
  "cameraRef s = (screen s = Camera \<and> permission s)"

definition checkServer :: "App \<Rightarrow> App" where
  "checkServer s = await AwaitHealth (emit FetchHealth (setServerStatus Checking s))"

definition handleCapture_finally :: "App \<Rightarrow> App" where
  "handleCapture_finally s = setLoadingText [] (setIsProcessing False s)"

definition handleCapture_catch :: "thrown \<Rightarrow> App \<Rightarrow> App" where
  "handleCapture_catch e s =
     handleCapture_finally (emit (Alert ''Error'' (message_or e ''Failed to process'')) s)"

definition null_camera_error :: thrown where
  \<comment> \<open>the \<^verbatim>\<open>TypeError\<close> of \<^verbatim>\<open>cameraRef.current.takePictureAsync\<close> on a null ref\<close>
  "null_camera_error = JsError ''Cannot read property 'takePictureAsync' of null''"

definition handleCapture_takePicture :: "App \<Rightarrow> App" where
  "handleCapture_takePicture s =
     (if cameraRef s then await AwaitTakePicture (emit TakePictureAsync s)
      else handleCapture_catch null_camera_error s)"

definition loadAudioFromBase64 :: "nat \<Rightarrow> string \<Rightarrow> App \<Rightarrow> App" where
  "loadAudioFromBase64 rid audioBase64 s =
     await (AwaitWriteFile rid) (emit (WriteAsStringAsync audioBase64) s)"

fun after_cleanupSound :: "caller \<Rightarrow> App \<Rightarrow> App" where
  "after_cleanupSound CallerHandleCapture s = handleCapture_takePicture s"
| "after_cleanupSound (CallerGenerateAudio rid audioBase64) s =
     loadAudioFromBase64 rid audioBase64 s"
| "after_cleanupSound CallerGoHome s =
     setScreen Home (setDetectedLanguage ''auto'' (setExtractedText [] s))"
| "after_cleanupSound CallerTakeAnother s = setScreen Camera s"

definition invalidate :: "App \<Rightarrow> App" where
  "invalidate s =
     setTtsError None (setAudioReady False (setIsGeneratingAudio False
       (s\<lparr>ttsRequestId := ttsRequestId s + 1\<rparr>)))"

definition cleanupSound :: "bool \<Rightarrow> caller \<Rightarrow> App \<Rightarrow> App" where
  "cleanupSound invalidateRequests c s =
     (let s1 = (if invalidateRequests then invalidate s else s) in
      case soundRef s1 of
        None \<Rightarrow> after_cleanupSound c s1
      | Some currentSound \<Rightarrow> await (AwaitStop currentSound c) (emit (StopAsync currentSound) s1))"

definition cleanupSound_release :: "App \<Rightarrow> App" where
  "cleanupSound_release s = setIsPlaying False (setSound None (s\<lparr>soundRef := None\<rparr>))"

definition generateAudio :: "string \<Rightarrow> string \<Rightarrow> App \<Rightarrow> App" where
  "generateAudio txt language s =
     (let requestId = ttsRequestId s + 1 in
      await (AwaitTtsFetch requestId)
        (emit (FetchTts txt language)
          (setTtsError None (setAudioReady False (setIsGeneratingAudio True
            (s\<lparr>ttsRequestId := requestId\<rparr>))))))"

definition generateAudio_finally :: "nat \<Rightarrow> App \<Rightarrow> App" where
  "generateAudio_finally requestId s =
     (if ttsRequestId s = requestId then setIsGeneratingAudio False s else s)"

definition generateAudio_catch :: "nat \<Rightarrow> thrown \<Rightarrow> App \<Rightarrow> App" where
  "generateAudio_catch requestId e s =
     (if ttsRequestId s \<noteq> requestId then generateAudio_finally requestId s
      else generateAudio_finally requestId
             (setAudioReady False
               (setTtsError (Some (message_or e ''Failed to generate audio'')) s)))"

definition handleCapture :: "App \<Rightarrow> App" where
  "handleCapture s =
     (if \<not> cameraRef s \<or> isProcessing s then s
      else cleanupSound True CallerHandleCapture
             (setLoadingText ''Capturing...'' (setIsProcessing True s)))"

definition playPause :: "App \<Rightarrow> App" where
  "playPause s =
     (case sound s of
        None \<Rightarrow> s
      | Some h \<Rightarrow>
          if \<not> audioReady s then s
          else if isPlaying s then await (AwaitPause h) (emit (PauseAsync h) s)
          else await (AwaitPlay h) (emit (PlayAsync h) s))"

definition goHome :: "App \<Rightarrow> App" where
  "goHome s = cleanupSound True CallerGoHome s"

definition onPlaybackStatusUpdate :: "bool \<Rightarrow> bool \<Rightarrow> bool \<Rightarrow> App \<Rightarrow> App" where
  "onPlaybackStatusUpdate st_isLoaded st_isPlaying st_didJustFinish s =
     (if st_isLoaded
      then (let s1 = setIsPlaying st_isPlaying s in
            if st_didJustFinish then setIsPlaying False s1 else s1)
      else s)"

subsection \<open>Resuming a suspended function\<close>

text \<open>
  \<open>resume t out s\<close> runs the function parked at \<open>t\<close> from the settlement \<open>out\<close> of the
  awaited promise to its next suspension point or to its end; \<open>None\<close> when the promise
  awaited at \<open>t\<close> cannot settle with a value of that shape.
\<close>

fun resume :: "task \<Rightarrow> outcome \<Rightarrow> App \<Rightarrow> App option" where
  "resume AwaitHealth out s =
     (case out of
        Response ok \<Rightarrow> Some (setServerStatus (if ok then Connected else ServerError) s)
      | Rejected e \<Rightarrow> Some (setServerStatus ServerError s)
      | _ \<Rightarrow> None)"
| "resume (AwaitStop h c) out s =
     (case out of
        Resolved \<Rightarrow> Some (await (AwaitUnload h c) (emit (UnloadAsync h) s))
      | Rejected e \<Rightarrow> Some (await (AwaitUnload h c) (emit (UnloadAsync h) s))
      | _ \<Rightarrow> None)"
| "resume (AwaitUnload h c) out s =
     (case out of
        Resolved \<Rightarrow>
          Some (after_cleanupSound c (cleanupSound_release (s\<lparr>loaded := removeAll h (loaded s)\<rparr>)))
      | Rejected e \<Rightarrow> Some (after_cleanupSound c (cleanupSound_release s))
      | _ \<Rightarrow> None)"
| "resume AwaitTakePicture out s =
     (case out of
        Photo p \<Rightarrow>
          Some (case p of
                  None \<Rightarrow> handleCapture_catch (JsError ''Failed to capture'') s
                | Some uri \<Rightarrow>
                    if uri = [] then handleCapture_catch (JsError ''Failed to capture'') s
                    else await AwaitManipulate (emit (ManipulateAsync uri)
                           (setLoadingText ''Processing image...'' s)))
      | Rejected e \<Rightarrow> Some (handleCapture_catch e s)
      | _ \<Rightarrow> None)"
| "resume AwaitManipulate out s =
     (case out of
        Uri u \<Rightarrow> Some (await AwaitReadFile (emit (ReadAsStringAsync u) s))
      | Rejected e \<Rightarrow> Some (handleCapture_catch e s)
      | _ \<Rightarrow> None)"
| "resume AwaitReadFile out s =
     (case out of
        Base64 b \<Rightarrow>
          Some (await AwaitOcrFetch (emit (FetchOcr b ''auto'')
                  (setLoadingText ''Extracting text...'' s)))
      | Rejected e \<Rightarrow> Some (handleCapture_catch e s)
      | _ \<Rightarrow> None)"
| "resume AwaitOcrFetch out s =
     (case out of
        Response ok \<Rightarrow> Some (await (if ok then AwaitOcrJson else AwaitOcrErrorJson) s)
      | Rejected e \<Rightarrow> Some (handleCapture_catch e s)
      | _ \<Rightarrow> None)"
| "resume AwaitOcrErrorJson out s =
     (case out of
        ErrorBody detail \<Rightarrow>
          Some (handleCapture_catch (JsError (or_default detail ''Server error'')) s)
      | Rejected e \<Rightarrow> Some (handleCapture_catch e s)
      | _ \<Rightarrow> None)"
| "resume AwaitOcrJson out s =
     (case out of
        OcrBody txt detected_language \<Rightarrow>
          Some (if blank txt
                then handleCapture_catch (JsError ''No text found in the image'') s
                else handleCapture_finally
                       (generateAudio txt (or_default detected_language ''auto'')
                         (setScreen Player
                           (setDetectedLanguage (or_default detected_language ''auto'')
                             (setExtractedText txt s)))))
      | Rejected e \<Rightarrow> Some (handleCapture_catch e s)
      | _ \<Rightarrow> None)"
| "resume (AwaitTtsFetch requestId) out s =
     (case out of
        Response ok \<Rightarrow>
          Some (await (if ok then AwaitTtsJson requestId else AwaitTtsErrorJson requestId) s)
      | Rejected e \<Rightarrow> Some (generateAudio_catch requestId e s)
      | _ \<Rightarrow> None)"
| "resume (AwaitTtsErrorJson requestId) out s =
     (case out of
        ErrorBody detail \<Rightarrow>
          Some (generateAudio_catch requestId (JsError (or_default detail ''Server error'')) s)
      | Rejected e \<Rightarrow> Some (generateAudio_catch requestId e s)
      | _ \<Rightarrow> None)"
| "resume (AwaitTtsJson requestId) out s =
     (case out of
        TtsBody audio_base64 \<Rightarrow>
          Some (if ttsRequestId s \<noteq> requestId then generateAudio_finally requestId s
                else cleanupSound False (CallerGenerateAudio requestId audio_base64) s)
      | Rejected e \<Rightarrow> Some (generateAudio_catch requestId e s)
      | _ \<Rightarrow> None)"
| "resume (AwaitWriteFile requestId) out s =
     (case out of
        Resolved \<Rightarrow> Some (await (AwaitSetAudioMode requestId) (emit SetAudioModeAsync s))
      | Rejected e \<Rightarrow> Some (generateAudio_catch requestId e s)
      | _ \<Rightarrow> None)"
| "resume (AwaitSetAudioMode requestId) out s =
     (case out of
        Resolved \<Rightarrow> Some (await (AwaitCreate requestId) (emit CreateAsync s))
      | Rejected e \<Rightarrow> Some (generateAudio_catch requestId e s)
      | _ \<Rightarrow> None)"
| "resume (AwaitCreate requestId) out s =
     (case out of
        Resolved \<Rightarrow>
          Some (let newSound = nextHandle s in
                generateAudio_finally requestId
                  (setAudioReady True
                    (setSound (Some newSound)
                      (s\<lparr>loaded := loaded s @ [newSound], nextHandle := newSound + 1,
                         soundRef := Some newSound\<rparr>))))
      | Rejected e \<Rightarrow> Some (generateAudio_catch requestId e s)
      | _ \<Rightarrow> None)"
| "resume (AwaitPause h) out s =
     (case out of
        Resolved \<Rightarrow> Some (setIsPlaying False s)
      | Rejected e \<Rightarrow> Some (emit (UnhandledRejection e) s)
      | _ \<Rightarrow> None)"
| "resume (AwaitPlay h) out s =
     (case out of
        Resolved \<Rightarrow> Some (setIsPlaying True s)
      | Rejected e \<Rightarrow> Some (emit (UnhandledRejection e) s)
      | _ \<Rightarrow> None)"

subsection \<open>Events and executions\<close>

datatype event =
    Mount
  | PermissionResult bool
  | PressTakePhoto
  | PressStatus
  | PressGrantPermission
  | PressBack
  | PressCapture
  | PressPlayPause
  | PressHome
  | PressRetry
  | PressTakeAnother
  | PlaybackStatus bool bool bool
  | Settle task outcome

text \<open>
  A press reaches its handler only when the control is rendered on the current screen and
  enabled. \<open>Settle t out\<close> is the settlement of a promise some parked function awaits.
\<close>

fun step :: "App \<Rightarrow> event \<Rightarrow> App" where
  "step s Mount = checkServer s"
| "step s (PermissionResult granted) = s\<lparr>permission := granted\<rparr>"
| "step s PressTakePhoto =
     (if screen s \<noteq> Home then s
      else if serverStatus s \<noteq> Connected
      then emit (Alert ''Server not connected'' ''Please wait or check connection'') s
      else if \<not> permission s then emit RequestPermission s
      else setScreen Camera s)"
| "step s PressStatus = (if screen s = Home then checkServer s else s)"
| "step s PressGrantPermission =
     (if screen s = Camera \<and> \<not> permission s then emit RequestPermission s else s)"
| "step s PressBack = (if screen s = Camera \<and> permission s then setScreen Home s else s)"
| "step s PressCapture =
     (if screen s = Camera \<and> permission s \<and> \<not> isProcessing s then handleCapture s else s)"
| "step s PressPlayPause = (if screen s = Player \<and> audioReady s then playPause s else s)"
| "step s PressHome = (if screen s = Player then goHome s else s)"
| "step s PressRetry =
     (if screen s = Player \<and> truthy (ttsError s)
      then generateAudio (extractedText s) (detectedLanguage s) s else s)"
| "step s PressTakeAnother =
     (if screen s = Player then cleanupSound True CallerTakeAnother s else s)"
| "step s (PlaybackStatus st_isLoaded st_isPlaying st_didJustFinish) =
     onPlaybackStatusUpdate st_isLoaded st_isPlaying st_didJustFinish s"
| "step s (Settle t out) =
     (if t \<in> set (pending s)
      then (case resume t out (s\<lparr>pending := remove1 t (pending s)\<rparr>) of
              None \<Rightarrow> s
            | Some s' \<Rightarrow> s')
      else s)"

definition run :: "event list \<Rightarrow> App \<Rightarrow> App" where
  "run es s = foldl step s es"

subsection \<open>Observations on a state\<close>

text \<open>The tasks of \<^verbatim>\<open>handleCapture\<close>: its own awaits and those of the \<^verbatim>\<open>cleanupSound\<close> it awaits.\<close>

fun capture_task :: "task \<Rightarrow> bool" where
  "capture_task (AwaitStop h c) = (c = CallerHandleCapture)"
| "capture_task (AwaitUnload h c) = (c = CallerHandleCapture)"
| "capture_task AwaitTakePicture = True"
| "capture_task AwaitManipulate = True"
| "capture_task AwaitReadFile = True"
| "capture_task AwaitOcrFetch = True"
| "capture_task AwaitOcrErrorJson = True"
| "capture_task AwaitOcrJson = True"
| "capture_task _ = False"

definition captures_in_flight :: "App \<Rightarrow> nat" where
  "captures_in_flight s = length (filter capture_task (pending s))"

definition capture_guarded :: "App \<Rightarrow> bool" where
  "capture_guarded s = (captures_in_flight s = (if isProcessing s then 1 else 0))"

fun is_release :: "obs \<Rightarrow> bool" where
  "is_release (StopAsync h) = True"
| "is_release (UnloadAsync h) = True"
| "is_release _ = False"

fun is_unhandled :: "obs \<Rightarrow> bool" where
  "is_unhandled (UnhandledRejection e) = True"
| "is_unhandled _ = False"

definition retry_visible :: "App \<Rightarrow> bool" where
  \<comment> \<open>the \<^verbatim>\<open>Retry Audio\<close> button: rendered on the player screen under \<^verbatim>\<open>ttsError && ...\<close>\<close>
  "retry_visible s = (screen s = Player \<and> truthy (ttsError s))"

text \<open>
  The awaits inside the \<^verbatim>\<open>try\<close> block of \<^verbatim>\<open>generateAudio\<close> whose rejection reaches its
  \<^verbatim>\<open>catch\<close> (the stop and unload awaited inside \<^verbatim>\<open>cleanupSound\<close> swallow theirs), and the
  value that reaches the \<^verbatim>\<open>catch\<close>: a rejection of the awaited promise, or the \<^verbatim>\<open>Error\<close>
  thrown for a response that is not ok.
\<close>

fun generateAudio_task :: "task \<Rightarrow> nat option" where
  "generateAudio_task (AwaitTtsFetch requestId) = Some requestId"
| "generateAudio_task (AwaitTtsErrorJson requestId) = Some requestId"
| "generateAudio_task (AwaitTtsJson requestId) = Some requestId"
| "generateAudio_task (AwaitWriteFile requestId) = Some requestId"
| "generateAudio_task (AwaitSetAudioMode requestId) = Some requestId"
| "generateAudio_task (AwaitCreate requestId) = Some requestId"
| "generateAudio_task _ = None"

definition synthesis_failure :: "task \<Rightarrow> outcome \<Rightarrow> thrown option" where
  "synthesis_failure t out =
     (case out of
        Rejected e \<Rightarrow> (if generateAudio_task t = None then None else Some e)
      | ErrorBody detail \<Rightarrow>
          (case t of
             AwaitTtsErrorJson requestId \<Rightarrow> Some (JsError (or_default detail ''Server error''))
           | _ \<Rightarrow> None)
      | _ \<Rightarrow> None)"

subsection \<open>Executions used as examples\<close>

text \<open>
  The application starts, the server answers the health check, the camera permission is
  granted, and a page is captured whose extraction returns text: the player screen shows
  the text and the synthesis request with \<^verbatim>\<open>requestId\<close> 2 is in flight.
\<close>

definition to_camera :: "event list" where
  "to_camera =
     [Mount, Settle AwaitHealth (Response True), PermissionResult True, PressTakePhoto]"

definition capture_attempt :: "string \<Rightarrow> string \<Rightarrow> string \<Rightarrow> string \<Rightarrow> string \<Rightarrow> event list" where
  \<comment> \<open>one run of \<^verbatim>\<open>handleCapture\<close> up to the body of a successful extraction response\<close>
  "capture_attempt uri resized b64 txt language =
     [PressCapture,
      Settle AwaitTakePicture (Photo (Some uri)),
      Settle AwaitManipulate (Uri resized),
      Settle AwaitReadFile (Base64 b64),
      Settle AwaitOcrFetch (Response True),
      Settle AwaitOcrJson (OcrBody txt language)]"

definition capture_attempt_releasing ::
    "handle \<Rightarrow> outcome \<Rightarrow> outcome \<Rightarrow> string \<Rightarrow> string \<Rightarrow> string \<Rightarrow> string \<Rightarrow> string \<Rightarrow> event list" where
  \<comment> \<open>the same when a sound is held: the \<^verbatim>\<open>cleanupSound\<close> of \<^verbatim>\<open>handleCapture\<close> stops and unloads it first\<close>
  "capture_attempt_releasing h stopped unloaded uri resized b64 txt language =
     [PressCapture,
      Settle (AwaitStop h CallerHandleCapture) stopped,
      Settle (AwaitUnload h CallerHandleCapture) unloaded,
      Settle AwaitTakePicture (Photo (Some uri)),
      Settle AwaitManipulate (Uri resized),
      Settle AwaitReadFile (Base64 b64),
      Settle AwaitOcrFetch (Response True),
      Settle AwaitOcrJson (OcrBody txt language)]"

definition capture_page :: "string \<Rightarrow> string \<Rightarrow> event list" where
  "capture_page txt language =
     capture_attempt ''file:///photo.jpg'' ''file:///photo-1280.jpg'' ''/9j/4AAQSkZJRg=='' txt language"

definition first_page :: "event list" where
  "first_page = to_camera @ capture_page ''Once upon a time...'' ''en''"

text \<open>
  The synthesis of the first page is accepted and its audio starts to load; while the
  load is suspended the user captures the next page, whose synthesis is accepted as well;
  then both loads finish.
\<close>

definition overlapping_loads :: "event list" where
  "overlapping_loads =
     first_page @
     [Settle (AwaitTtsFetch 2) (Response True),
      Settle (AwaitTtsJson 2) (TtsBody ''UklGRiQAAABXQVZF''),
      PressTakeAnother] @
     capture_page ''The end.'' ''en'' @
     [Settle (AwaitTtsFetch 5) (Response True),
      Settle (AwaitTtsJson 5) (TtsBody ''UklGRjIAAABXQVZF''),
      Settle (AwaitWriteFile 2) Resolved,
      Settle (AwaitSetAudioMode 2) Resolved,
      Settle (AwaitCreate 2) Resolved,
      Settle (AwaitWriteFile 5) Resolved,
      Settle (AwaitSetAudioMode 5) Resolved,
      Settle (AwaitCreate 5) Resolved]"

text \<open>The synthesis of the first page succeeds and its audio is loaded.\<close>

definition audio_ready :: "event list" where
  "audio_ready =
     first_page @
     [Settle (AwaitTtsFetch 2) (Response True),
      Settle (AwaitTtsJson 2) (TtsBody ''UklGRiQAAABXQVZF''),
      Settle (AwaitWriteFile 2) Resolved,
      Settle (AwaitSetAudioMode 2) Resolved,
      Settle (AwaitCreate 2) Resolved]"

text \<open>
  The synthesis of the first page is accepted and its audio starts to load; the user
  presses \<^verbatim>\<open>Take Another Photo\<close>; the load goes on up to the creation of the sound.
\<close>

definition stale_load :: "event list" where
  "stale_load =
     first_page @
     [Settle (AwaitTtsFetch 2) (Response True),
      Settle (AwaitTtsJson 2) (TtsBody ''UklGRiQAAABXQVZF''),
      PressTakeAnother,
      Settle (AwaitWriteFile 2) Resolved,
      Settle (AwaitSetAudioMode 2) Resolved]"

text \<open>The same, with the sound created: the camera screen is showing and a sound is held.\<close>

definition camera_with_sound :: "event list" where
  "camera_with_sound =
     first_page @
     [Settle (AwaitTtsFetch 2) (Response True),
      Settle (AwaitTtsJson 2) (TtsBody ''UklGRiQAAABXQVZF''),
      PressTakeAnother,
      Settle (AwaitWriteFile 2) Resolved,
      Settle (AwaitSetAudioMode 2) Resolved,
      Settle (AwaitCreate 2) Resolved]"

text \<open>The user leaves the first page for the camera while its synthesis is in flight.\<close>

definition superseded :: "event list" where
  "superseded = first_page @ [PressTakeAnother]"

subsection \<open>The audio player component\<close>

text \<open>
  \<^verbatim>\<open>AudioPlayer.tsx\<close>: the state cells of the component, its \<^verbatim>\<open>duration\<close> prop, and the
  calls it makes on the sound, in order. Times are real numbers of seconds; the engine
  takes milliseconds. The optional \<^verbatim>\<open>onPlaybackComplete\<close> prop, which the status callback
  invokes when playback has just finished, belongs to the parent and is left out.
\<close>

datatype sound_call = SetPositionAsync handle real

record AudioPlayer =
  player_sound :: "handle option"
  player_isPlaying :: bool
  position :: real
  playbackSpeed :: real
  duration :: real
  sound_calls :: "sound_call list"

definition seekTo :: "real \<Rightarrow> AudioPlayer \<Rightarrow> AudioPlayer" where
  "seekTo seconds p =
     (case player_sound p of
        None \<Rightarrow> p
      | Some h \<Rightarrow> p\<lparr>sound_calls := sound_calls p @ [SetPositionAsync h (seconds * 1000)]\<rparr>)"

definition player_onPlaybackStatusUpdate ::
    "bool \<Rightarrow> real \<Rightarrow> bool \<Rightarrow> bool \<Rightarrow> AudioPlayer \<Rightarrow> AudioPlayer" where
  "player_onPlaybackStatusUpdate st_isLoaded st_positionMillis st_isPlaying st_didJustFinish p =
     (if st_isLoaded
      then (let p1 = p\<lparr>position := st_positionMillis / 1000, player_isPlaying := st_isPlaying\<rparr>
            in if st_didJustFinish then p1\<lparr>player_isPlaying := False, position := 0\<rparr> else p1)
      else p)"

definition example_player :: AudioPlayer where
  \<comment> \<open>a loaded ten-second sound, paused at second 3\<close>
  "example_player = \<lparr> player_sound = Some 0, player_isPlaying = False, position = 3,
     playbackSpeed = 1, duration = 10, sound_calls = [] \<rparr>"

subsection \<open>Requests of the remote service client\<close>

text \<open>
  \<^verbatim>\<open>ApiService\<close> sends every request through the one axios instance made in its
  constructor. \<^verbatim>\<open>App.tsx\<close> calls \<^verbatim>\<open>fetch\<close> with a URL and, for the two POSTs, a method,
  headers and a body; it passes no timeout or abort signal.
\<close>

definition API_BASE_URL :: string where
  "API_BASE_URL = ''http://192.168.219.103:8000''"

record AxiosConfig =
  baseURL :: string
  timeout :: nat

definition ApiService_client :: AxiosConfig where
  "ApiService_client = \<lparr> baseURL = API_BASE_URL, timeout = 120000 \<rparr>"

datatype operation = CheckHealth | ExtractText | TextToSpeech | ReadImage

record request =
  req_method :: string
  req_url :: string
  req_timeout :: "nat option"

definition client_request :: "AxiosConfig \<Rightarrow> string \<Rightarrow> string \<Rightarrow> request" where
  "client_request cfg m path =
     \<lparr> req_method = m, req_url = baseURL cfg @ path, req_timeout = Some (timeout cfg) \<rparr>"

fun ApiService_request :: "operation \<Rightarrow> request" where
  "ApiService_request CheckHealth = client_request ApiService_client ''GET'' ''/health''"
| "ApiService_request ExtractText = client_request ApiService_client ''POST'' ''/api/ocr''"
| "ApiService_request TextToSpeech = client_request ApiService_client ''POST'' ''/api/tts''"
| "ApiService_request ReadImage = client_request ApiService_client ''POST'' ''/api/read''"

datatype remote_call = HealthCall | OcrCall | TtsCall

fun App_fetch :: "remote_call \<Rightarrow> request" where
  "App_fetch HealthCall =
     \<lparr> req_method = ''GET'', req_url = API_BASE_URL @ ''/health'', req_timeout = None \<rparr>"
| "App_fetch OcrCall =
     \<lparr> req_method = ''POST'', req_url = API_BASE_URL @ ''/api/ocr'', req_timeout = None \<rparr>"
| "App_fetch TtsCall =
     \<lparr> req_method = ''POST'', req_url = API_BASE_URL @ ''/api/tts'', req_timeout = None \<rparr>"

section \<open>Properties\<close>

subsection \<open>What each building block leaves alone\<close>

lemmas setter_defs = setScreen_def setServerStatus_def setIsProcessing_def
  setLoadingText_def setExtractedText_def setSound_def setIsPlaying_def setAudioReady_def
  setIsGeneratingAudio_def setTtsError_def setDetectedLanguage_def



lemma emit_frame [simp]:
  "captures_in_flight (emit x s) = captures_in_flight s"
  "isProcessing (emit x s) = isProcessing s"
  "ttsRequestId (emit x s) = ttsRequestId s"
  "soundRef (emit x s) = soundRef s"
  "cameraRef (emit x s) = cameraRef s"
  by (simp_all add: emit_def captures_in_flight_def cameraRef_def)

lemma await_frame [simp]:
  "captures_in_flight (await t s) = captures_in_flight s + (if capture_task t then 1 else 0)"
  "isProcessing (await t s) = isProcessing s"
  "ttsRequestId (await t s) = ttsRequestId s"
  by (simp_all add: await_def captures_in_flight_def)

lemma setter_frame [simp]:
  "captures_in_flight (setScreen a s) = captures_in_flight s"
  "captures_in_flight (setServerStatus b s) = captures_in_flight s"
  "captures_in_flight (setIsProcessing c s) = captures_in_flight s"
  "captures_in_flight (setLoadingText d s) = captures_in_flight s"
  "captures_in_flight (setExtractedText d s) = captures_in_flight s"
  "captures_in_flight (setSound h s) = captures_in_flight s"
  "captures_in_flight (setIsPlaying c s) = captures_in_flight s"
  "captures_in_flight (setAudioReady c s) = captures_in_flight s"
  "captures_in_flight (setIsGeneratingAudio c s) = captures_in_flight s"
  "captures_in_flight (setTtsError m s) = captures_in_flight s"
  "captures_in_flight (setDetectedLanguage d s) = captures_in_flight s"
  by (simp_all add: setter_defs emit_def captures_in_flight_def)

lemma setter_isProcessing [simp]:
  "isProcessing (setScreen a s) = isProcessing s"
  "isProcessing (setServerStatus b s) = isProcessing s"
  "isProcessing (setIsProcessing c s) = c"
  "isProcessing (setLoadingText d s) = isProcessing s"
  "isProcessing (setExtractedText d s) = isProcessing s"
  "isProcessing (setSound h s) = isProcessing s"
  "isProcessing (setIsPlaying c s) = isProcessing s"
  "isProcessing (setAudioReady c s) = isProcessing s"
  "isProcessing (setIsGeneratingAudio c s) = isProcessing s"
  "isProcessing (setTtsError m s) = isProcessing s"
  "isProcessing (setDetectedLanguage d s) = isProcessing s"
  by (simp_all add: setter_defs emit_def)

lemma setter_ttsRequestId [simp]:
  "ttsRequestId (setScreen a s) = ttsRequestId s"
  "ttsRequestId (setServerStatus b s) = ttsRequestId s"
  "ttsRequestId (setIsProcessing c s) = ttsRequestId s"
  "ttsRequestId (setLoadingText d s) = ttsRequestId s"
  "ttsRequestId (setExtractedText d s) = ttsRequestId s"
  "ttsRequestId (setSound h s) = ttsRequestId s"
  "ttsRequestId (setIsPlaying c s) = ttsRequestId s"
  "ttsRequestId (setAudioReady c s) = ttsRequestId s"
  "ttsRequestId (setIsGeneratingAudio c s) = ttsRequestId s"
  "ttsRequestId (setTtsError m s) = ttsRequestId s"
  "ttsRequestId (setDetectedLanguage d s) = ttsRequestId s"
  by (simp_all add: setter_defs emit_def)

lemma handleCapture_finally_frame [simp]:
  "captures_in_flight (handleCapture_finally s) = captures_in_flight s"
  "isProcessing (handleCapture_finally s) = False"
  "ttsRequestId (handleCapture_finally s) = ttsRequestId s"
  by (simp_all add: handleCapture_finally_def)

lemma handleCapture_catch_frame [simp]:
  "captures_in_flight (handleCapture_catch e s) = captures_in_flight s"
  "isProcessing (handleCapture_catch e s) = False"
  "ttsRequestId (handleCapture_catch e s) = ttsRequestId s"
  by (simp_all add: handleCapture_catch_def)

lemma handleCapture_takePicture_frame [simp]:
  "captures_in_flight (handleCapture_takePicture s) = captures_in_flight s + (if cameraRef s then 1 else 0)"
  "isProcessing (handleCapture_takePicture s) = (cameraRef s \<and> isProcessing s)"
  "ttsRequestId (handleCapture_takePicture s) = ttsRequestId s"
  by (simp_all add: handleCapture_takePicture_def)

lemma loadAudioFromBase64_frame [simp]:
  "captures_in_flight (loadAudioFromBase64 r a s) = captures_in_flight s"
  "isProcessing (loadAudioFromBase64 r a s) = isProcessing s"
  "ttsRequestId (loadAudioFromBase64 r a s) = ttsRequestId s"
  by (simp_all add: loadAudioFromBase64_def)

lemma after_cleanupSound_frame [simp]:
  "captures_in_flight (after_cleanupSound c s) =
     captures_in_flight s + (if c = CallerHandleCapture \<and> cameraRef s then 1 else 0)"
  "isProcessing (after_cleanupSound c s) =
     (if c = CallerHandleCapture then cameraRef s \<and> isProcessing s else isProcessing s)"
  "ttsRequestId (after_cleanupSound c s) = ttsRequestId s"
  by (cases c; simp)+

lemma without_frame [simp]:
  "isProcessing (s\<lparr>pending := p\<rparr>) = isProcessing s"
  "ttsRequestId (s\<lparr>pending := p\<rparr>) = ttsRequestId s"
  "cameraRef (s\<lparr>pending := p\<rparr>) = cameraRef s"
  "cameraRef (s\<lparr>loaded := l\<rparr>) = cameraRef s"
  "cameraRef (s\<lparr>soundRef := r\<rparr>) = cameraRef s"
  "captures_in_flight (s\<lparr>loaded := l\<rparr>) = captures_in_flight s"
  "captures_in_flight (s\<lparr>soundRef := r\<rparr>) = captures_in_flight s"
  "captures_in_flight (s\<lparr>nextHandle := n\<rparr>) = captures_in_flight s"
  "captures_in_flight (s\<lparr>permission := g\<rparr>) = captures_in_flight s"
  "captures_in_flight (s\<lparr>ttsRequestId := n\<rparr>) = captures_in_flight s"
  "isProcessing (s\<lparr>ttsRequestId := n\<rparr>) = isProcessing s"
  by (simp_all add: cameraRef_def captures_in_flight_def)

lemma setter_soundRef [simp]:
  "soundRef (setIsGeneratingAudio c s) = soundRef s"
  "soundRef (setAudioReady c s) = soundRef s"
  "soundRef (setTtsError m s) = soundRef s"
  "soundRef (setLoadingText d s) = soundRef s"
  "soundRef (setIsProcessing c s) = soundRef s"
  by (simp_all add: setter_defs emit_def)

lemma setter_cameraRef [simp]:
  "cameraRef (setIsGeneratingAudio c s) = cameraRef s"
  "cameraRef (setAudioReady c s) = cameraRef s"
  "cameraRef (setTtsError m s) = cameraRef s"
  "cameraRef (setLoadingText d s) = cameraRef s"
  "cameraRef (setIsProcessing c s) = cameraRef s"
  "cameraRef (setSound h s) = cameraRef s"
  "cameraRef (setIsPlaying c s) = cameraRef s"
  by (simp_all add: setter_defs emit_def cameraRef_def)

lemma invalidate_frame [simp]:
  "captures_in_flight (invalidate s) = captures_in_flight s"
  "isProcessing (invalidate s) = isProcessing s"
  "ttsRequestId (invalidate s) = ttsRequestId s + 1"
  "soundRef (invalidate s) = soundRef s"
  "cameraRef (invalidate s) = cameraRef s"
  by (simp_all add: invalidate_def captures_in_flight_def cameraRef_def setter_defs emit_def)

lemma cleanupSound_frame [simp]:
  "captures_in_flight (cleanupSound b c s) =
     captures_in_flight s + (if c = CallerHandleCapture \<and> (soundRef s \<noteq> None \<or> cameraRef s) then 1 else 0)"
  "isProcessing (cleanupSound b c s) =
     (if c = CallerHandleCapture \<and> soundRef s = None then cameraRef s \<and> isProcessing s
      else isProcessing s)"
  "ttsRequestId (cleanupSound b c s) = ttsRequestId s + (if b then 1 else 0)"
  by (auto simp: cleanupSound_def Let_def split: option.splits)

lemma cleanupSound_release_frame [simp]:
  "captures_in_flight (cleanupSound_release s) = captures_in_flight s"
  "isProcessing (cleanupSound_release s) = isProcessing s"
  "ttsRequestId (cleanupSound_release s) = ttsRequestId s"
  "cameraRef (cleanupSound_release s) = cameraRef s"
  by (simp_all add: cleanupSound_release_def captures_in_flight_def cameraRef_def setter_defs emit_def)

lemma generateAudio_frame [simp]:
  "captures_in_flight (generateAudio t l s) = captures_in_flight s"
  "isProcessing (generateAudio t l s) = isProcessing s"
  "ttsRequestId (generateAudio t l s) = ttsRequestId s + 1"
  by (simp_all add: generateAudio_def Let_def)

lemma generateAudio_finally_frame [simp]:
  "captures_in_flight (generateAudio_finally r s) = captures_in_flight s"
  "isProcessing (generateAudio_finally r s) = isProcessing s"
  "ttsRequestId (generateAudio_finally r s) = ttsRequestId s"
  by (simp_all add: generateAudio_finally_def)

lemma generateAudio_catch_frame [simp]:
  "captures_in_flight (generateAudio_catch r e s) = captures_in_flight s"
  "isProcessing (generateAudio_catch r e s) = isProcessing s"
  "ttsRequestId (generateAudio_catch r e s) = ttsRequestId s"
  by (simp_all add: generateAudio_catch_def)

lemma checkServer_frame [simp]:
  "captures_in_flight (checkServer s) = captures_in_flight s"
  "isProcessing (checkServer s) = isProcessing s"
  "ttsRequestId (checkServer s) = ttsRequestId s"
  by (simp_all add: checkServer_def)

lemma playPause_frame [simp]:
  "captures_in_flight (playPause s) = captures_in_flight s"
  "isProcessing (playPause s) = isProcessing s"
  "ttsRequestId (playPause s) = ttsRequestId s"
  by (simp_all add: playPause_def split: option.splits)

lemma onPlaybackStatusUpdate_frame [simp]:
  "captures_in_flight (onPlaybackStatusUpdate a b c s) = captures_in_flight s"
  "isProcessing (onPlaybackStatusUpdate a b c s) = isProcessing s"
  "ttsRequestId (onPlaybackStatusUpdate a b c s) = ttsRequestId s"
  by (simp_all add: onPlaybackStatusUpdate_def Let_def)

lemma handleCapture_frame [simp]:
  "ttsRequestId (handleCapture s) = ttsRequestId s + (if cameraRef s \<and> \<not> isProcessing s then 1 else 0)"
  "captures_in_flight (handleCapture s) =
     captures_in_flight s + (if cameraRef s \<and> \<not> isProcessing s then 1 else 0)"
  "isProcessing (handleCapture s) = (isProcessing s \<or> cameraRef s)"
  by (auto simp: handleCapture_def)

lemma filter_pos: "t \<in> set xs \<Longrightarrow> P t \<Longrightarrow> 0 < length (filter P xs)"
  by (induction xs) auto

lemma length_filter_remove1:
  "t \<in> set xs \<Longrightarrow> length (filter P (remove1 t xs)) = length (filter P xs) - (if P t then 1 else 0)"
proof (induction xs)
  case Nil
  then show ?case by simp
next
  case (Cons a xs)
  show ?case
  proof (cases "a = t")
    case True
    then show ?thesis by simp
  next
    case False
    then have "t \<in> set xs" using Cons.prems by simp
    with Cons.IH filter_pos[of t xs P] False show ?thesis by auto
  qed
qed

lemma captures_without:
  assumes "t \<in> set (pending s)" "capture_guarded s"
  shows "captures_in_flight (s\<lparr>pending := remove1 t (pending s)\<rparr>) =
           (if capture_task t then 0 else captures_in_flight s)"
    and "capture_task t \<Longrightarrow> isProcessing s"
proof -
  have pos: "capture_task t \<Longrightarrow> 0 < captures_in_flight s"
    using assms(1) filter_pos[of t "pending s" capture_task] by (simp add: captures_in_flight_def)
  show "capture_task t \<Longrightarrow> isProcessing s"
    using pos assms(2) by (auto simp: capture_guarded_def split: if_splits)
  show "captures_in_flight (s\<lparr>pending := remove1 t (pending s)\<rparr>) =
           (if capture_task t then 0 else captures_in_flight s)"
    using pos assms by (auto simp: captures_in_flight_def capture_guarded_def length_filter_remove1 split: if_splits)
qed

lemma resume_capture_guarded:
  assumes "resume t out s0 = Some s'"
    and "captures_in_flight s0 = (if capture_task t then 0 else if isProcessing s0 then 1 else 0)"
    and "capture_task t \<longrightarrow> isProcessing s0"
  shows "capture_guarded s'"
  using assms
  by (cases t; cases out)
     (auto simp: capture_guarded_def Let_def split: option.splits if_splits)

lemma capture_guarded_step:
  assumes "capture_guarded s" shows "capture_guarded (step s e)"
proof (cases e)
  case (Settle t out)
  show ?thesis
  proof (cases "t \<in> set (pending s)")
    case False then show ?thesis using assms Settle by simp
  next
    case True
    let ?s0 = "s\<lparr>pending := remove1 t (pending s)\<rparr>"
    show ?thesis
    proof (cases "resume t out ?s0")
      case None then show ?thesis using assms Settle True by simp
    next
      case (Some s')
      have "capture_guarded s'"
        using resume_capture_guarded[OF Some] captures_without[OF True assms] assms
        by (auto simp: capture_guarded_def split: if_splits)
      then show ?thesis using Settle True Some by simp
    qed
  qed
qed (use assms in \<open>auto simp: capture_guarded_def goHome_def split: if_splits\<close>)

lemma capture_guarded_run: "capture_guarded s \<Longrightarrow> capture_guarded (run es s)"
  by (induction es rule: rev_induct) (simp_all add: run_def capture_guarded_step)

lemmas model_defs = run_def emit_def await_def setter_defs checkServer_def handleCapture_finally_def
  handleCapture_catch_def handleCapture_takePicture_def loadAudioFromBase64_def invalidate_def
  cleanupSound_def cleanupSound_release_def generateAudio_def generateAudio_finally_def
  generateAudio_catch_def handleCapture_def playPause_def goHome_def onPlaybackStatusUpdate_def
  cameraRef_def or_default_def blank_def js_whitespace_def truthy_def Let_def

lemmas example_defs = App_init_def to_camera_def capture_attempt_def capture_page_def first_page_def

subsection \<open>The example executions, evaluated\<close>

lemma run_to_camera:
  "run to_camera App_init =
   \<lparr>screen = Camera, serverStatus = Connected, permission = True,
    isProcessing = False, loadingText = [], extractedText = [],
    sound = None, isPlaying = False, audioReady = False,
    isGeneratingAudio = False, ttsError = None, detectedLanguage = ''auto'',
    soundRef = None, ttsRequestId = 0, pending = [],
    trace =
    [SetServerStatus Checking, FetchHealth, SetServerStatus Connected,
    SetScreen Camera],
    loaded = [], nextHandle = 0\<rparr>"
  by (simp add: model_defs example_defs)

lemma run_first_page:
  "run first_page App_init =
   \<lparr>screen = Player, serverStatus = Connected, permission = True,
    isProcessing = False, loadingText = [],
    extractedText = ''Once upon a time...'', sound = None,
    isPlaying = False, audioReady = False, isGeneratingAudio = True,
    ttsError = None, detectedLanguage = ''en'', soundRef = None,
    ttsRequestId = 2, pending = [AwaitTtsFetch 2],
    trace =
    [SetServerStatus Checking, FetchHealth, SetServerStatus Connected,
    SetScreen Camera, SetIsProcessing True,
    SetLoadingText ''Capturing...'', SetIsGeneratingAudio False,
    SetAudioReady False, SetTtsError None, TakePictureAsync,
    SetLoadingText ''Processing image...'',
    ManipulateAsync ''file:///photo.jpg'',
    ReadAsStringAsync ''file:///photo-1280.jpg'',
    SetLoadingText ''Extracting text...'',
    FetchOcr ''/9j/4AAQSkZJRg=='' ''auto'',
    SetExtractedText ''Once upon a time...'', SetDetectedLanguage ''en'',
    SetScreen Player, SetIsGeneratingAudio True, SetAudioReady False,
    SetTtsError None, FetchTts ''Once upon a time...'' ''en'',
    SetIsProcessing False, SetLoadingText []],
    loaded = [], nextHandle = 0\<rparr>"
  by (simp add: model_defs example_defs)

subsection \<open>The capture handler is not re-entrant\<close>

text \<open>
  Claim C10. While \<open>isProcessing\<close> is set, an invocation of \<^verbatim>\<open>handleCapture\<close> returns at once
  and changes nothing (and the capture button, being disabled, does not even reach it).
  In every state the application can reach from its start, by any sequence of user
  actions and promise settlements, the number of capture pipelines in flight is one when
  \<open>isProcessing\<close> is set and zero when it is not: so there is never more than one, and
  whenever a pipeline has ended, on its success path or through its \<^verbatim>\<open>catch\<close>, the
  \<^verbatim>\<open>finally\<close> block has put \<open>isProcessing\<close> back to false.
\<close>

theorem capture_reentrancy_guard:
  "(isProcessing s \<longrightarrow> handleCapture s = s \<and> step s PressCapture = s) \<and>
   captures_in_flight (run es App_init) = (if isProcessing (run es App_init) then 1 else 0)"
proof -
  have "capture_guarded App_init"
    by (simp add: capture_guarded_def captures_in_flight_def App_init_def)
  then have "capture_guarded (run es App_init)"
    by (rule capture_guarded_run)
  then show ?thesis
    by (simp add: capture_guarded_def handleCapture_def)
qed

theorem capture_reentrancy_guard_witness:
  "isProcessing (run (to_camera @ [PressCapture]) App_init) \<and>
   handleCapture (run (to_camera @ [PressCapture]) App_init)
     = run (to_camera @ [PressCapture]) App_init \<and>
   step (run (to_camera @ [PressCapture]) App_init) PressCapture
     = run (to_camera @ [PressCapture]) App_init \<and>
   captures_in_flight (run (to_camera @ [PressCapture, PressCapture]) App_init) = 1"
proof -
  have p: "isProcessing (run (to_camera @ [PressCapture]) App_init)"
    by (simp add: model_defs example_defs)
  have q: "isProcessing (run (to_camera @ [PressCapture, PressCapture]) App_init)"
    by (simp add: model_defs example_defs)
  show ?thesis
    using capture_reentrancy_guard
            [of "run (to_camera @ [PressCapture]) App_init" "to_camera @ [PressCapture, PressCapture]"]
          p q
    by simp
qed

subsection \<open>A superseded synthesis request that is loading still changes the state\<close>

text \<open>
  Claim C1 holds of the design but not of the code. \<^verbatim>\<open>generateAudio\<close> compares its
  \<^verbatim>\<open>requestId\<close> with the live counter when the response body has arrived, in its \<^verbatim>\<open>catch\<close>
  and in its \<^verbatim>\<open>finally\<close>, but not after the awaits of \<^verbatim>\<open>loadAudioFromBase64\<close> on its success
  path. In the execution \<open>stale_load\<close> the audio of the first page is accepted under
  \<^verbatim>\<open>requestId\<close> 2 and its load is suspended; the user presses \<^verbatim>\<open>Take Another Photo\<close>, whose
  \<^verbatim>\<open>cleanupSound\<close> moves the counter to 3 and shows the camera screen; the load goes on.
  When \<^verbatim>\<open>createAsync\<close> then resolves, the superseded request stores the new sound in
  \<open>soundRef\<close> and \<open>sound\<close> and sets \<open>audioReady\<close>, on the camera screen.
\<close>

theorem superseded_load_still_mutates:
  "ttsRequestId (run stale_load App_init) = 3 \<and>
   AwaitCreate 2 \<in> set (pending (run stale_load App_init)) \<and>
   screen (run stale_load App_init) = Camera \<and>
   sound (run stale_load App_init) = None \<and>
   soundRef (run stale_load App_init) = None \<and>
   \<not> audioReady (run stale_load App_init) \<and>
   sound (step (run stale_load App_init) (Settle (AwaitCreate 2) Resolved)) = Some 0 \<and>
   soundRef (step (run stale_load App_init) (Settle (AwaitCreate 2) Resolved)) = Some 0 \<and>
   audioReady (step (run stale_load App_init) (Settle (AwaitCreate 2) Resolved)) \<and>
   ttsRequestId (step (run stale_load App_init) (Settle (AwaitCreate 2) Resolved)) = 3"
  by (simp add: model_defs example_defs stale_load_def)

subsection \<open>The text is on screen before the synthesis is dispatched\<close>

text \<open>
  Claim C2. When the extraction response carries text that is not blank, the function
  parked at \<^verbatim>\<open>await response.json()\<close> in \<^verbatim>\<open>handleCapture\<close> runs on, in one uninterrupted
  step, through exactly these effects in this order: it stores the (non-empty) extracted
  text, stores the detected language, switches to the player screen, and only then
  enters \<^verbatim>\<open>generateAudio\<close>, which sets \<open>isGeneratingAudio\<close>, clears \<open>audioReady\<close> and
  \<open>ttsError\<close> and sends the synthesis request; the \<^verbatim>\<open>finally\<close> block follows. The only
  function parked by the step is the synthesis request itself, parked after all of this:
  there is no suspension point between the screen change and the dispatch.
\<close>

theorem text_shown_before_synthesis_dispatch:
  assumes "AwaitOcrJson \<in> set (pending s)" and "\<not> blank txt"
  shows "txt \<noteq> [] \<and>
         trace (step s (Settle AwaitOcrJson (OcrBody txt lang))) =
           trace s @
           [SetExtractedText txt, SetDetectedLanguage (or_default lang ''auto''), SetScreen Player,
            SetIsGeneratingAudio True, SetAudioReady False, SetTtsError None,
            FetchTts txt (or_default lang ''auto''),
            SetIsProcessing False, SetLoadingText []] \<and>
         pending (step s (Settle AwaitOcrJson (OcrBody txt lang))) =
           remove1 AwaitOcrJson (pending s) @ [AwaitTtsFetch (ttsRequestId s + 1)] \<and>
         screen (step s (Settle AwaitOcrJson (OcrBody txt lang))) = Player \<and>
         extractedText (step s (Settle AwaitOcrJson (OcrBody txt lang))) = txt"
proof -
  have "txt \<noteq> []" using assms(2) by (auto simp: blank_def)
  then show ?thesis
    using assms
    by (simp add: handleCapture_finally_def generateAudio_def setter_defs emit_def await_def Let_def)
qed

theorem text_shown_before_synthesis_dispatch_witness:
  "AwaitOcrJson \<in> set (pending (run (to_camera @ butlast (capture_page ''Once upon a time...'' ''en'')) App_init)) \<and>
   \<not> blank ''Once upon a time...'' \<and>
   trace (run first_page App_init) =
     trace (run (to_camera @ butlast (capture_page ''Once upon a time...'' ''en'')) App_init) @
       [SetExtractedText ''Once upon a time...'', SetDetectedLanguage ''en'', SetScreen Player,
        SetIsGeneratingAudio True, SetAudioReady False, SetTtsError None,
        FetchTts ''Once upon a time...'' ''en'', SetIsProcessing False, SetLoadingText []]"
proof -
  let ?s = "run (to_camera @ butlast (capture_page ''Once upon a time...'' ''en'')) App_init"
  have a: "AwaitOcrJson \<in> set (pending ?s)"
    by (simp add: model_defs example_defs)
  have b: "\<not> blank ''Once upon a time...''"
    by (simp add: blank_def js_whitespace_def)
  have c: "run first_page App_init = step ?s (Settle AwaitOcrJson (OcrBody ''Once upon a time...'' ''en''))"
    by (simp add: run_def first_page_def capture_page_def capture_attempt_def)
  show ?thesis
    using a b c text_shown_before_synthesis_dispatch [OF a b, of "''en''"]
    by (simp add: or_default_def)
qed

subsection \<open>A synthesis failure leaves the text and the screen alone\<close>

text \<open>
  Claim C3, as amended. When a synthesis attempt whose \<^verbatim>\<open>requestId\<close> equals the live counter
  fails (the request or a body read rejects, the response is not ok, or the load of the
  audio rejects), the state changes in exactly three cells: \<open>ttsError\<close> receives the
  message, \<open>audioReady\<close> is cleared and, in the \<^verbatim>\<open>finally\<close> block, \<open>isGeneratingAudio\<close> is
  cleared. The extracted text, the screen and everything else stay as they are. If the
  player screen is showing and the message is not the empty string, the retry button is
  rendered, and pressing it calls \<^verbatim>\<open>generateAudio\<close> on the displayed text under the next
  \<^verbatim>\<open>requestId\<close>.
\<close>

theorem synthesis_failure_effect:
  assumes "t \<in> set (pending s)"
    and "generateAudio_task t = Some (ttsRequestId s)"
    and "synthesis_failure t out = Some e"
  shows "step s (Settle t out) =
           s\<lparr>pending := remove1 t (pending s),
              ttsError := Some (message_or e ''Failed to generate audio''),
              audioReady := False, isGeneratingAudio := False,
              trace := trace s @ [SetTtsError (Some (message_or e ''Failed to generate audio'')),
                                  SetAudioReady False, SetIsGeneratingAudio False]\<rparr> \<and>
         (screen s = Player \<and> message_or e ''Failed to generate audio'' \<noteq> [] \<longrightarrow>
            retry_visible (step s (Settle t out)) \<and>
            step (step s (Settle t out)) PressRetry =
              generateAudio (extractedText s) (detectedLanguage s) (step s (Settle t out)) \<and>
            ttsRequestId (step (step s (Settle t out)) PressRetry) = ttsRequestId s + 1 \<and>
            AwaitTtsFetch (ttsRequestId s + 1) \<in> set (pending (step (step s (Settle t out)) PressRetry)))"
proof -
  have eq: "step s (Settle t out) =
           s\<lparr>pending := remove1 t (pending s),
              ttsError := Some (message_or e ''Failed to generate audio''),
              audioReady := False, isGeneratingAudio := False,
              trace := trace s @ [SetTtsError (Some (message_or e ''Failed to generate audio'')),
                                  SetAudioReady False, SetIsGeneratingAudio False]\<rparr>"
  proof -
    have "resume t out (s\<lparr>pending := remove1 t (pending s)\<rparr>) =
            Some (generateAudio_catch (ttsRequestId s) e (s\<lparr>pending := remove1 t (pending s)\<rparr>))"
      using assms(2,3)
      by (cases t; cases out) (auto simp: synthesis_failure_def split: if_splits)
    then show ?thesis
      using assms(1)
      by (simp add: generateAudio_catch_def generateAudio_finally_def setter_defs emit_def)
  qed
  show ?thesis
    unfolding eq
    by (simp add: eq retry_visible_def truthy_def generateAudio_def Let_def await_def emit_def setter_defs)
qed

theorem synthesis_failure_effect_witness:
  "AwaitTtsFetch 2 \<in> set (pending (run first_page App_init)) \<and>
   generateAudio_task (AwaitTtsFetch 2) = Some (ttsRequestId (run first_page App_init)) \<and>
   synthesis_failure (AwaitTtsFetch 2) (Rejected (JsError ''timeout'')) = Some (JsError ''timeout'') \<and>
   screen (run first_page App_init) = Player \<and>
   message_or (JsError ''timeout'') ''Failed to generate audio'' \<noteq> [] \<and>
   extractedText (step (run first_page App_init)
      (Settle (AwaitTtsFetch 2) (Rejected (JsError ''timeout'')))) = ''Once upon a time...'' \<and>
   screen (step (run first_page App_init)
      (Settle (AwaitTtsFetch 2) (Rejected (JsError ''timeout'')))) = Player \<and>
   ttsError (step (run first_page App_init)
      (Settle (AwaitTtsFetch 2) (Rejected (JsError ''timeout'')))) = Some ''timeout'' \<and>
   retry_visible (step (run first_page App_init)
      (Settle (AwaitTtsFetch 2) (Rejected (JsError ''timeout'')))) \<and>
   ttsRequestId (step (step (run first_page App_init)
      (Settle (AwaitTtsFetch 2) (Rejected (JsError ''timeout'')))) PressRetry) = 3"
proof -
  define s where "s = run first_page App_init"
  define s' where "s' = step s (Settle (AwaitTtsFetch 2) (Rejected (JsError ''timeout'')))"
  have a: "AwaitTtsFetch 2 \<in> set (pending s)"
    by (simp add: s_def run_first_page)
  have b: "generateAudio_task (AwaitTtsFetch 2) = Some (ttsRequestId s)"
    by (simp add: s_def run_first_page)
  have c: "synthesis_failure (AwaitTtsFetch 2) (Rejected (JsError ''timeout'')) = Some (JsError ''timeout'')"
    by (simp add: synthesis_failure_def)
  have d: "screen s = Player" "extractedText s = ''Once upon a time...''" "ttsRequestId s = 2"
    by (simp_all add: s_def run_first_page)
  have m: "message_or (JsError ''timeout'') ''Failed to generate audio'' \<noteq> []"
    by simp
  note th = synthesis_failure_effect [OF a b c, folded s'_def]
  from th have eq: "s' = s\<lparr>pending := remove1 (AwaitTtsFetch 2) (pending s),
              ttsError := Some (message_or (JsError ''timeout'') ''Failed to generate audio''),
              audioReady := False, isGeneratingAudio := False,
              trace := trace s @ [SetTtsError (Some (message_or (JsError ''timeout'') ''Failed to generate audio'')),
                                  SetAudioReady False, SetIsGeneratingAudio False]\<rparr>"
    by blast
  from th d(1) m have r: "retry_visible s'" "ttsRequestId (step s' PressRetry) = ttsRequestId s + 1"
    by blast+
  have f: "extractedText s' = ''Once upon a time...''" "screen s' = Player"
      "ttsError s' = Some ''timeout''"
    by (simp_all add: eq d)
  show ?thesis
    unfolding s_def [symmetric] s'_def [symmetric]
    using a b c d m f r by simp
qed

text \<open>
  The claim as worded says that the failure only sets \<open>ttsError\<close> and clears \<open>audioReady\<close>.
  On the first page, with the request in flight and a network failure, the failure also
  clears \<open>isGeneratingAudio\<close>.
\<close>

theorem synthesis_failure_counterexample:
  "AwaitTtsFetch 2 \<in> set (pending (run first_page App_init)) \<and>
   ttsRequestId (run first_page App_init) = 2 \<and>
   isGeneratingAudio (run first_page App_init) \<and>
   \<not> isGeneratingAudio
       (step (run first_page App_init)
          (Settle (AwaitTtsFetch 2) (Rejected (JsError ''Network request failed''))))"
  by (simp add: run_first_page generateAudio_catch_def generateAudio_finally_def setter_defs emit_def)

subsection \<open>Two loads in flight leave two sounds loaded\<close>

text \<open>
  Claim C4 holds of the design but not of the code. \<^verbatim>\<open>generateAudio\<close> compares its
  \<^verbatim>\<open>requestId\<close> with the live counter once, before \<^verbatim>\<open>cleanupSound(false)\<close> and
  \<^verbatim>\<open>loadAudioFromBase64\<close>, and not again after the awaits inside them. In the execution
  \<open>overlapping_loads\<close> the audio of the first page is accepted and its load is suspended;
  the user captures the next page, whose audio is accepted in turn while \<^verbatim>\<open>soundRef\<close> is
  still null, so its \<^verbatim>\<open>cleanupSound(false)\<close> finds nothing to release; then both loads
  finish. At the end the engine holds two loaded sounds, \<^verbatim>\<open>soundRef\<close> points to the second,
  nothing is parked any more, and neither \<^verbatim>\<open>stopAsync\<close> nor \<^verbatim>\<open>unloadAsync\<close> was ever called:
  the first sound is orphaned.
\<close>

theorem overlapping_loads_leave_two_sounds:
  "loaded (run overlapping_loads App_init) = [0, 1] \<and>
   soundRef (run overlapping_loads App_init) = Some 1 \<and>
   sound (run overlapping_loads App_init) = Some 1 \<and>
   filter is_release (trace (run overlapping_loads App_init)) = [] \<and>
   pending (run overlapping_loads App_init) = []"
  by (simp add: model_defs example_defs overlapping_loads_def)

subsection \<open>A blank extraction aborts the capture attempt\<close>

lemma no_capture_pending:
  assumes "captures_in_flight s = 0" and "capture_task t"
  shows "t \<notin> set (pending s)"
  using assms filter_pos[of t "pending s" capture_task]
  by (auto simp: captures_in_flight_def)

text \<open>
  Claim C5, as amended. When the extraction response carries empty or white-space-only
  text, the handling of the response raises the alert \<^verbatim>\<open>No text found in the image\<close>, puts
  \<open>isProcessing\<close> and \<open>loadingText\<close> back, and changes nothing else: no screen transition,
  no write to \<open>extractedText\<close> or \<open>detectedLanguage\<close>, no synthesis request. Over a whole
  capture attempt that starts on the camera screen and runs with no other event in
  between, the screen, \<open>extractedText\<close> and \<open>detectedLanguage\<close> end as they were before the
  attempt, but the synthesis-related state does not: the attempt begins with
  \<^verbatim>\<open>cleanupSound()\<close>, which increments \<open>ttsRequestId\<close>, clears \<open>isGeneratingAudio\<close>,
  \<open>audioReady\<close> and \<open>ttsError\<close> and, when a sound is held, stops and unloads it (whether
  those calls are fulfilled or rejected) and clears \<open>soundRef\<close>, \<open>sound\<close> and \<open>isPlaying\<close>;
  nothing undoes this when the attempt fails.
\<close>

theorem blank_extraction_aborts:
  assumes "blank txt"
  shows "(AwaitOcrJson \<in> set (pending s) \<longrightarrow>
            step s (Settle AwaitOcrJson (OcrBody txt lang)) =
              s\<lparr>pending := remove1 AwaitOcrJson (pending s), isProcessing := False,
                 loadingText := [],
                 trace := trace s @ [Alert ''Error'' ''No text found in the image'',
                                     SetIsProcessing False, SetLoadingText []]\<rparr>) \<and>
         (screen s = Camera \<and> permission s \<and> \<not> isProcessing s \<and> captures_in_flight s = 0 \<and>
          soundRef s = None \<and> uri \<noteq> [] \<longrightarrow>
            run (capture_attempt uri resized b64 txt lang) s =
              s\<lparr>isProcessing := False, loadingText := [], ttsRequestId := ttsRequestId s + 1,
                 isGeneratingAudio := False, audioReady := False, ttsError := None,
                 trace := trace s @
                   [SetIsProcessing True, SetLoadingText ''Capturing...'',
                    SetIsGeneratingAudio False, SetAudioReady False, SetTtsError None,
                    TakePictureAsync, SetLoadingText ''Processing image...'',
                    ManipulateAsync uri, ReadAsStringAsync resized,
                    SetLoadingText ''Extracting text...'', FetchOcr b64 ''auto'',
                    Alert ''Error'' ''No text found in the image'',
                    SetIsProcessing False, SetLoadingText []]\<rparr>) \<and>
         (screen s = Camera \<and> permission s \<and> \<not> isProcessing s \<and> captures_in_flight s = 0 \<and>
          soundRef s = Some h \<and> uri \<noteq> [] \<and>
          (stopped = Resolved \<or> stopped = Rejected e1) \<and>
          (unloaded = Resolved \<or> unloaded = Rejected e2) \<longrightarrow>
            run (capture_attempt_releasing h stopped unloaded uri resized b64 txt lang) s =
              s\<lparr>isProcessing := False, loadingText := [], ttsRequestId := ttsRequestId s + 1,
                 isGeneratingAudio := False, audioReady := False, ttsError := None,
                 soundRef := None, sound := None, isPlaying := False,
                 loaded := (if unloaded = Resolved then removeAll h (loaded s) else loaded s),
                 trace := trace s @
                   [SetIsProcessing True, SetLoadingText ''Capturing...'',
                    SetIsGeneratingAudio False, SetAudioReady False, SetTtsError None,
                    StopAsync h, UnloadAsync h, SetSound None, SetIsPlaying False,
                    TakePictureAsync, SetLoadingText ''Processing image...'',
                    ManipulateAsync uri, ReadAsStringAsync resized,
                    SetLoadingText ''Extracting text...'', FetchOcr b64 ''auto'',
                    Alert ''Error'' ''No text found in the image'',
                    SetIsProcessing False, SetLoadingText []]\<rparr>)"
proof (intro conjI impI)
  assume "AwaitOcrJson \<in> set (pending s)"
  then show "step s (Settle AwaitOcrJson (OcrBody txt lang)) =
              s\<lparr>pending := remove1 AwaitOcrJson (pending s), isProcessing := False,
                 loadingText := [],
                 trace := trace s @ [Alert ''Error'' ''No text found in the image'',
                                     SetIsProcessing False, SetLoadingText []]\<rparr>"
    using assms
    by (simp add: handleCapture_catch_def handleCapture_finally_def setter_defs emit_def)
next
  assume h: "screen s = Camera \<and> permission s \<and> \<not> isProcessing s \<and> captures_in_flight s = 0 \<and>
          soundRef s = None \<and> uri \<noteq> []"
  then have n: "AwaitTakePicture \<notin> set (pending s)" "AwaitManipulate \<notin> set (pending s)"
      "AwaitReadFile \<notin> set (pending s)" "AwaitOcrFetch \<notin> set (pending s)"
      "AwaitOcrJson \<notin> set (pending s)"
    by (simp_all add: no_capture_pending)
  show "run (capture_attempt uri resized b64 txt lang) s =
              s\<lparr>isProcessing := False, loadingText := [], ttsRequestId := ttsRequestId s + 1,
                 isGeneratingAudio := False, audioReady := False, ttsError := None,
                 trace := trace s @
                   [SetIsProcessing True, SetLoadingText ''Capturing...'',
                    SetIsGeneratingAudio False, SetAudioReady False, SetTtsError None,
                    TakePictureAsync, SetLoadingText ''Processing image...'',
                    ManipulateAsync uri, ReadAsStringAsync resized,
                    SetLoadingText ''Extracting text...'', FetchOcr b64 ''auto'',
                    Alert ''Error'' ''No text found in the image'',
                    SetIsProcessing False, SetLoadingText []]\<rparr>"
    using h n assms
    by (simp add: capture_attempt_def run_def handleCapture_def cameraRef_def cleanupSound_def
          invalidate_def handleCapture_takePicture_def handleCapture_catch_def
          handleCapture_finally_def setter_defs emit_def await_def Let_def remove1_append)
next
  assume h: "screen s = Camera \<and> permission s \<and> \<not> isProcessing s \<and> captures_in_flight s = 0 \<and>
          soundRef s = Some h \<and> uri \<noteq> [] \<and>
          (stopped = Resolved \<or> stopped = Rejected e1) \<and>
          (unloaded = Resolved \<or> unloaded = Rejected e2)"
  then have n: "AwaitTakePicture \<notin> set (pending s)" "AwaitManipulate \<notin> set (pending s)"
      "AwaitReadFile \<notin> set (pending s)" "AwaitOcrFetch \<notin> set (pending s)"
      "AwaitOcrJson \<notin> set (pending s)"
      "AwaitStop h CallerHandleCapture \<notin> set (pending s)"
      "AwaitUnload h CallerHandleCapture \<notin> set (pending s)"
    by (simp_all add: no_capture_pending)
  from h have st: "stopped = Resolved \<or> stopped = Rejected e1"
    and un: "unloaded = Resolved \<or> unloaded = Rejected e2" by simp_all
  show "run (capture_attempt_releasing h stopped unloaded uri resized b64 txt lang) s =
              s\<lparr>isProcessing := False, loadingText := [], ttsRequestId := ttsRequestId s + 1,
                 isGeneratingAudio := False, audioReady := False, ttsError := None,
                 soundRef := None, sound := None, isPlaying := False,
                 loaded := (if unloaded = Resolved then removeAll h (loaded s) else loaded s),
                 trace := trace s @
                   [SetIsProcessing True, SetLoadingText ''Capturing...'',
                    SetIsGeneratingAudio False, SetAudioReady False, SetTtsError None,
                    StopAsync h, UnloadAsync h, SetSound None, SetIsPlaying False,
                    TakePictureAsync, SetLoadingText ''Processing image...'',
                    ManipulateAsync uri, ReadAsStringAsync resized,
                    SetLoadingText ''Extracting text...'', FetchOcr b64 ''auto'',
                    Alert ''Error'' ''No text found in the image'',
                    SetIsProcessing False, SetLoadingText []]\<rparr>"
    using st un
  proof (elim disjE)
    assume "stopped = Resolved" "unloaded = Resolved"
    then show ?thesis using h n assms
      by (simp add: capture_attempt_releasing_def run_def handleCapture_def cameraRef_def
          cleanupSound_def cleanupSound_release_def
          invalidate_def handleCapture_takePicture_def handleCapture_catch_def
          handleCapture_finally_def setter_defs emit_def await_def Let_def remove1_append)
  next
    assume "stopped = Resolved" "unloaded = Rejected e2"
    then show ?thesis using h n assms
      by (simp add: capture_attempt_releasing_def run_def handleCapture_def cameraRef_def
          cleanupSound_def cleanupSound_release_def
          invalidate_def handleCapture_takePicture_def handleCapture_catch_def
          handleCapture_finally_def setter_defs emit_def await_def Let_def remove1_append)
  next
    assume "stopped = Rejected e1" "unloaded = Resolved"
    then show ?thesis using h n assms
      by (simp add: capture_attempt_releasing_def run_def handleCapture_def cameraRef_def
          cleanupSound_def cleanupSound_release_def
          invalidate_def handleCapture_takePicture_def handleCapture_catch_def
          handleCapture_finally_def setter_defs emit_def await_def Let_def remove1_append)
  next
    assume "stopped = Rejected e1" "unloaded = Rejected e2"
    then show ?thesis using h n assms
      by (simp add: capture_attempt_releasing_def run_def handleCapture_def cameraRef_def
          cleanupSound_def cleanupSound_release_def
          invalidate_def handleCapture_takePicture_def handleCapture_catch_def
          handleCapture_finally_def setter_defs emit_def await_def Let_def remove1_append)
  qed
qed

theorem blank_extraction_aborts_witness:
  "blank ''   '' \<and>
   AwaitOcrJson \<in> set (pending (run (to_camera @ butlast (capture_page ''   '' ''en'')) App_init)) \<and>
   (screen (run to_camera App_init) = Camera \<and> permission (run to_camera App_init) \<and>
    \<not> isProcessing (run to_camera App_init) \<and> captures_in_flight (run to_camera App_init) = 0 \<and>
    soundRef (run to_camera App_init) = None \<and> ''file:///photo.jpg'' \<noteq> []) \<and>
   (screen (run camera_with_sound App_init) = Camera \<and> permission (run camera_with_sound App_init) \<and>
    \<not> isProcessing (run camera_with_sound App_init) \<and>
    captures_in_flight (run camera_with_sound App_init) = 0 \<and>
    soundRef (run camera_with_sound App_init) = Some 0) \<and>
   screen (step (run (to_camera @ butlast (capture_page ''   '' ''en'')) App_init)
             (Settle AwaitOcrJson (OcrBody ''   '' ''en''))) = Camera \<and>
   extractedText (run (capture_attempt ''file:///photo.jpg'' ''file:///photo-1280.jpg''
                         ''/9j/4AAQSkZJRg=='' ''   '' ''en'') (run to_camera App_init)) = [] \<and>
   ttsRequestId (run (capture_attempt ''file:///photo.jpg'' ''file:///photo-1280.jpg''
                         ''/9j/4AAQSkZJRg=='' ''   '' ''en'') (run to_camera App_init)) = 1 \<and>
   extractedText (run (capture_attempt_releasing 0 (Rejected (JsError ''stop failed'')) Resolved
                         ''file:///photo.jpg'' ''file:///photo-1280.jpg'' ''/9j/4AAQSkZJRg=='' ''   '' ''en'')
                    (run camera_with_sound App_init)) = ''Once upon a time...'' \<and>
   screen (run (capture_attempt_releasing 0 (Rejected (JsError ''stop failed'')) Resolved
                         ''file:///photo.jpg'' ''file:///photo-1280.jpg'' ''/9j/4AAQSkZJRg=='' ''   '' ''en'')
                    (run camera_with_sound App_init)) = Camera \<and>
   soundRef (run (capture_attempt_releasing 0 (Rejected (JsError ''stop failed'')) Resolved
                         ''file:///photo.jpg'' ''file:///photo-1280.jpg'' ''/9j/4AAQSkZJRg=='' ''   '' ''en'')
                    (run camera_with_sound App_init)) = None \<and>
   \<not> audioReady (run (capture_attempt_releasing 0 (Rejected (JsError ''stop failed'')) Resolved
                         ''file:///photo.jpg'' ''file:///photo-1280.jpg'' ''/9j/4AAQSkZJRg=='' ''   '' ''en'')
                    (run camera_with_sound App_init))"
proof -
  define cam where "cam = run to_camera App_init"
  define mid where "mid = run (to_camera @ butlast (capture_page ''   '' ''en'')) App_init"
  define held where "held = run camera_with_sound App_init"
  have b: "blank ''   ''"
    by (simp add: blank_def js_whitespace_def)
  have a: "AwaitOcrJson \<in> set (pending mid)" "screen mid = Camera"
    by (simp_all add: mid_def model_defs example_defs)
  have h: "screen cam = Camera \<and> permission cam \<and> \<not> isProcessing cam \<and>
           captures_in_flight cam = 0 \<and> soundRef cam = None \<and> ''file:///photo.jpg'' \<noteq> []"
    by (simp add: cam_def run_to_camera captures_in_flight_def)
  have v: "extractedText cam = []" "ttsRequestId cam = 0"
    by (simp_all add: cam_def run_to_camera)
  have k: "screen held = Camera \<and> permission held \<and> \<not> isProcessing held \<and>
           captures_in_flight held = 0 \<and> soundRef held = Some 0"
    by (simp add: held_def model_defs example_defs camera_with_sound_def captures_in_flight_def)
  have w: "extractedText held = ''Once upon a time...''"
    by (simp add: held_def model_defs example_defs camera_with_sound_def)
  from blank_extraction_aborts [OF b, where s = mid and lang = "''en''"] a(1)
  have c1: "step mid (Settle AwaitOcrJson (OcrBody ''   '' ''en'')) =
              mid\<lparr>pending := remove1 AwaitOcrJson (pending mid), isProcessing := False,
                 loadingText := [],
                 trace := trace mid @ [Alert ''Error'' ''No text found in the image'',
                                     SetIsProcessing False, SetLoadingText []]\<rparr>"
    by blast
  have d1: "screen (step mid (Settle AwaitOcrJson (OcrBody ''   '' ''en''))) = Camera"
    unfolding c1 by (simp add: a(2))
  from blank_extraction_aborts [OF b, where s = cam and uri = "''file:///photo.jpg''"
         and resized = "''file:///photo-1280.jpg''" and ?b64.0 = "''/9j/4AAQSkZJRg==''" and lang = "''en''"] h
  have c2: "run (capture_attempt ''file:///photo.jpg'' ''file:///photo-1280.jpg''
                   ''/9j/4AAQSkZJRg=='' ''   '' ''en'') cam =
              cam\<lparr>isProcessing := False, loadingText := [], ttsRequestId := ttsRequestId cam + 1,
                 isGeneratingAudio := False, audioReady := False, ttsError := None,
                 trace := trace cam @
                   [SetIsProcessing True, SetLoadingText ''Capturing...'',
                    SetIsGeneratingAudio False, SetAudioReady False, SetTtsError None,
                    TakePictureAsync, SetLoadingText ''Processing image...'',
                    ManipulateAsync ''file:///photo.jpg'', ReadAsStringAsync ''file:///photo-1280.jpg'',
                    SetLoadingText ''Extracting text...'', FetchOcr ''/9j/4AAQSkZJRg=='' ''auto'',
                    Alert ''Error'' ''No text found in the image'',
                    SetIsProcessing False, SetLoadingText []]\<rparr>"
    by blast
  have d2: "extractedText (run (capture_attempt ''file:///photo.jpg'' ''file:///photo-1280.jpg''
                   ''/9j/4AAQSkZJRg=='' ''   '' ''en'') cam) = []"
      "ttsRequestId (run (capture_attempt ''file:///photo.jpg'' ''file:///photo-1280.jpg''
                   ''/9j/4AAQSkZJRg=='' ''   '' ''en'') cam) = 1"
    unfolding c2 by (simp_all add: v)
  from blank_extraction_aborts [OF b, where s = held and h = 0
         and stopped = "Rejected (JsError ''stop failed'')" and ?e1.0 = "JsError ''stop failed''"
         and unloaded = Resolved and uri = "''file:///photo.jpg''"
         and resized = "''file:///photo-1280.jpg''" and ?b64.0 = "''/9j/4AAQSkZJRg==''" and lang = "''en''"] k
  have c3: "run (capture_attempt_releasing 0 (Rejected (JsError ''stop failed'')) Resolved
                   ''file:///photo.jpg'' ''file:///photo-1280.jpg'' ''/9j/4AAQSkZJRg=='' ''   '' ''en'') held =
              held\<lparr>isProcessing := False, loadingText := [], ttsRequestId := ttsRequestId held + 1,
                 isGeneratingAudio := False, audioReady := False, ttsError := None,
                 soundRef := None, sound := None, isPlaying := False,
                 loaded := (if Resolved = Resolved then removeAll 0 (loaded held) else loaded held),
                 trace := trace held @
                   [SetIsProcessing True, SetLoadingText ''Capturing...'',
                    SetIsGeneratingAudio False, SetAudioReady False, SetTtsError None,
                    StopAsync 0, UnloadAsync 0, SetSound None, SetIsPlaying False,
                    TakePictureAsync, SetLoadingText ''Processing image...'',
                    ManipulateAsync ''file:///photo.jpg'', ReadAsStringAsync ''file:///photo-1280.jpg'',
                    SetLoadingText ''Extracting text...'', FetchOcr ''/9j/4AAQSkZJRg=='' ''auto'',
                    Alert ''Error'' ''No text found in the image'',
                    SetIsProcessing False, SetLoadingText []]\<rparr>"
    by blast
  have d3: "extractedText (run (capture_attempt_releasing 0 (Rejected (JsError ''stop failed'')) Resolved
                   ''file:///photo.jpg'' ''file:///photo-1280.jpg'' ''/9j/4AAQSkZJRg=='' ''   '' ''en'') held)
              = ''Once upon a time...''"
      "screen (run (capture_attempt_releasing 0 (Rejected (JsError ''stop failed'')) Resolved
                   ''file:///photo.jpg'' ''file:///photo-1280.jpg'' ''/9j/4AAQSkZJRg=='' ''   '' ''en'') held)
              = Camera"
      "soundRef (run (capture_attempt_releasing 0 (Rejected (JsError ''stop failed'')) Resolved
                   ''file:///photo.jpg'' ''file:///photo-1280.jpg'' ''/9j/4AAQSkZJRg=='' ''   '' ''en'') held)
              = None"
      "\<not> audioReady (run (capture_attempt_releasing 0 (Rejected (JsError ''stop failed'')) Resolved
                   ''file:///photo.jpg'' ''file:///photo-1280.jpg'' ''/9j/4AAQSkZJRg=='' ''   '' ''en'') held)"
    unfolding c3 by (simp_all add: w k)
  show ?thesis
    unfolding cam_def [symmetric] mid_def [symmetric] held_def [symmetric]
    using b a(1) h k d1 d2 d3 by blast
qed

text \<open>
  The claim as worded has all synthesis-related state unchanged from before the attempt.
  From the camera screen right after start-up, an attempt whose extraction returns three
  spaces moves the request counter from 0 to 1. From the camera screen reached in
  \<open>camera_with_sound\<close>, where a loaded sound is held and \<open>audioReady\<close> is set, the same
  attempt ends on the camera screen with \<open>audioReady\<close> cleared, the sound released and
  the counter moved from 3 to 4.
\<close>

theorem blank_extraction_counterexample:
  "blank ''   '' \<and>
   ttsRequestId (run to_camera App_init) = 0 \<and>
   ttsRequestId (run (to_camera @ capture_page ''   '' ''en'') App_init) = 1 \<and>
   screen (run camera_with_sound App_init) = Camera \<and>
   audioReady (run camera_with_sound App_init) \<and>
   sound (run camera_with_sound App_init) = Some 0 \<and>
   ttsRequestId (run camera_with_sound App_init) = 3 \<and>
   screen (run (camera_with_sound @ capture_attempt_releasing 0 Resolved Resolved
            ''file:///photo.jpg'' ''file:///photo-1280.jpg'' ''/9j/4AAQSkZJRg=='' ''   '' ''en'') App_init) = Camera \<and>
   \<not> audioReady (run (camera_with_sound @ capture_attempt_releasing 0 Resolved Resolved
            ''file:///photo.jpg'' ''file:///photo-1280.jpg'' ''/9j/4AAQSkZJRg=='' ''   '' ''en'') App_init) \<and>
   sound (run (camera_with_sound @ capture_attempt_releasing 0 Resolved Resolved
            ''file:///photo.jpg'' ''file:///photo-1280.jpg'' ''/9j/4AAQSkZJRg=='' ''   '' ''en'') App_init) = None \<and>
   ttsRequestId (run (camera_with_sound @ capture_attempt_releasing 0 Resolved Resolved
            ''file:///photo.jpg'' ''file:///photo-1280.jpg'' ''/9j/4AAQSkZJRg=='' ''   '' ''en'') App_init) = 4"
  by (simp add: model_defs example_defs camera_with_sound_def capture_attempt_releasing_def)

subsection \<open>Seeking in the audio player\<close>

text \<open>
  Claim C6, as amended. For every input \<open>x\<close>, \<^verbatim>\<open>seekTo(x)\<close> neither clamps \<open>x\<close> nor writes
  the position: when a sound is loaded its only effect is the call
  \<^verbatim>\<open>sound.setPositionAsync(x * 1000)\<close>, with \<open>x\<close> passed on as it is, and when no sound is
  loaded it has no effect; \<open>position\<close> and \<open>isPlaying\<close> are left as they are, playing or
  paused. The playback status callback, on a status that is loaded, sets \<open>position\<close> to
  the reported position in milliseconds divided by 1000, or to 0 when playback has just
  finished; on a status that is not loaded it changes nothing.
\<close>

theorem seekTo_forwards_unclamped:
  "seekTo x p =
     p\<lparr>sound_calls := sound_calls p @
          (case player_sound p of None \<Rightarrow> [] | Some h \<Rightarrow> [SetPositionAsync h (x * 1000)])\<rparr> \<and>
   position (seekTo x p) = position p \<and>
   player_isPlaying (seekTo x p) = player_isPlaying p \<and>
   position (player_onPlaybackStatusUpdate True ms playing finished q) =
     (if finished then 0 else ms / 1000) \<and>
   player_onPlaybackStatusUpdate False ms playing finished q = q"
  by (simp add: seekTo_def player_onPlaybackStatusUpdate_def Let_def split: option.splits)

text \<open>
  The claim as worded has \<^verbatim>\<open>seek(x)\<close> update the position at once and clamp \<open>x\<close> into
  \<open>[0, duration]\<close>. With a ten-second sound paused at second 3, seeking to second 7 leaves
  the position at 3; and \<^verbatim>\<open>seekTo\<close> passes \<open>-5\<close> on as \<open>-5000\<close> ms and 25 as 25000 ms,
  again with the position left at 3.
\<close>

theorem seekTo_counterexample:
  "duration example_player = 10 \<and> position example_player = 3 \<and>
   position (seekTo 7 example_player) = 3 \<and>
   sound_calls (seekTo 7 example_player) = [SetPositionAsync 0 7000] \<and>
   sound_calls (seekTo (-5) example_player) = [SetPositionAsync 0 (-5000)] \<and>
   position (seekTo (-5) example_player) = 3 \<and>
   sound_calls (seekTo 25 example_player) = [SetPositionAsync 0 25000] \<and>
   position (seekTo 25 example_player) = 3"
  by (simp add: seekTo_def example_player_def)

subsection \<open>Request timeouts\<close>

text \<open>
  Claim C8, as amended. Every operation of \<^verbatim>\<open>ApiService\<close>, the health check included, is
  sent with the one timeout of the shared axios instance, 120000 ms (two minutes). The
  \<^verbatim>\<open>fetch\<close> calls of \<^verbatim>\<open>App.tsx\<close> (health check, extraction, synthesis) carry no timeout.
\<close>

theorem request_timeouts:
  "req_timeout (ApiService_request op) = Some 120000 \<and> req_timeout (App_fetch c) = None"
  by (cases op; cases c) (simp_all add: client_request_def ApiService_client_def)

text \<open>
  The claim as worded gives the health check a distinct, much shorter timeout and every
  operation a bounded one. The health check of \<^verbatim>\<open>ApiService\<close> has the same timeout as its
  synthesis call, and the synthesis call of \<^verbatim>\<open>App.tsx\<close> has none.
\<close>

theorem request_timeouts_counterexample:
  "req_timeout (ApiService_request CheckHealth) = req_timeout (ApiService_request TextToSpeech) \<and>
   req_timeout (App_fetch TtsCall) = None"
  by (simp add: client_request_def ApiService_client_def)

subsection \<open>The health check\<close>

text \<open>
  Claim C7. \<^verbatim>\<open>checkServer\<close> catches every failure of its request: when the response is not
  ok, and when \<^verbatim>\<open>fetch\<close> rejects because the network is unreachable, the only effect is
  that \<open>serverStatus\<close> becomes \<^verbatim>\<open>'error'\<close>; no rejection escapes. On the home screen, while
  \<open>serverStatus\<close> is not \<^verbatim>\<open>'connected'\<close>, pressing \<^verbatim>\<open>Take Photo\<close> shows the alert and changes
  nothing else, so the screen stays the home screen; and pressing the status line starts
  a new health check, whatever the status is and whatever else is in flight.
\<close>

theorem health_check_failure_disconnects:
  assumes "AwaitHealth \<in> set (pending s)"
  shows "step s (Settle AwaitHealth (Response False)) =
           s\<lparr>pending := remove1 AwaitHealth (pending s), serverStatus := ServerError,
              trace := trace s @ [SetServerStatus ServerError]\<rparr> \<and>
         step s (Settle AwaitHealth (Rejected e)) =
           s\<lparr>pending := remove1 AwaitHealth (pending s), serverStatus := ServerError,
              trace := trace s @ [SetServerStatus ServerError]\<rparr> \<and>
         (screen s' = Home \<and> serverStatus s' \<noteq> Connected \<longrightarrow>
            step s' PressTakePhoto =
              s'\<lparr>trace := trace s' @
                     [Alert ''Server not connected'' ''Please wait or check connection'']\<rparr>) \<and>
         (screen s' = Home \<longrightarrow>
            step s' PressStatus =
              s'\<lparr>serverStatus := Checking, pending := pending s' @ [AwaitHealth],
                 trace := trace s' @ [SetServerStatus Checking, FetchHealth]\<rparr>)"
  using assms
  by (auto simp: setServerStatus_def emit_def await_def checkServer_def)

theorem health_check_failure_disconnects_witness:
  "AwaitHealth \<in> set (pending (run [Mount] App_init)) \<and>
   serverStatus (step (run [Mount] App_init)
                   (Settle AwaitHealth (Rejected (JsError ''Network request failed'')))) = ServerError \<and>
   screen (run [Mount, Settle AwaitHealth (Rejected (JsError ''Network request failed''))] App_init) = Home \<and>
   serverStatus (run [Mount, Settle AwaitHealth (Rejected (JsError ''Network request failed''))] App_init)
     \<noteq> Connected \<and>
   screen (step (run [Mount, Settle AwaitHealth (Rejected (JsError ''Network request failed''))] App_init)
             PressTakePhoto) = Home \<and>
   serverStatus (step (run [Mount, Settle AwaitHealth (Rejected (JsError ''Network request failed''))] App_init)
                   PressStatus) = Checking"
proof -
  define s where "s = run [Mount] App_init"
  define s' where
    "s' = run [Mount, Settle AwaitHealth (Rejected (JsError ''Network request failed''))] App_init"
  have a: "AwaitHealth \<in> set (pending s)"
    by (simp add: s_def model_defs example_defs)
  have h: "screen s' = Home" "serverStatus s' \<noteq> Connected"
    by (simp_all add: s'_def model_defs example_defs)
  note th = health_check_failure_disconnects
              [OF a, where e = "JsError ''Network request failed''" and s' = s']
  from th have e1: "step s (Settle AwaitHealth (Rejected (JsError ''Network request failed''))) =
           s\<lparr>pending := remove1 AwaitHealth (pending s), serverStatus := ServerError,
              trace := trace s @ [SetServerStatus ServerError]\<rparr>"
    by blast
  from th h have e2: "step s' PressTakePhoto =
              s'\<lparr>trace := trace s' @
                     [Alert ''Server not connected'' ''Please wait or check connection'']\<rparr>"
    by blast
  from th h have e3: "step s' PressStatus =
              s'\<lparr>serverStatus := Checking, pending := pending s' @ [AwaitHealth],
                 trace := trace s' @ [SetServerStatus Checking, FetchHealth]\<rparr>"
    by blast
  have d: "serverStatus (step s (Settle AwaitHealth (Rejected (JsError ''Network request failed'')))) = ServerError"
      "screen (step s' PressTakePhoto) = Home" "serverStatus (step s' PressStatus) = Checking"
    unfolding e1 e2 e3 by (simp_all add: h)
  show ?thesis
    unfolding s_def [symmetric] s'_def [symmetric]
    using a h d by blast
qed

subsection \<open>Releasing the sound repeatedly\<close>

lemma after_cleanupSound_audio:
  "soundRef (after_cleanupSound c s) = soundRef s"
  "sound (after_cleanupSound c s) = sound s"
  "isPlaying (after_cleanupSound c s) = isPlaying s"
  "filter is_unhandled (trace (after_cleanupSound c s)) = filter is_unhandled (trace s)"
  by (cases c; simp add: handleCapture_takePicture_def handleCapture_catch_def
        handleCapture_finally_def loadAudioFromBase64_def setter_defs emit_def await_def)+

lemma cleanupSound_no_resource:
  assumes "soundRef s = None"
  shows "cleanupSound False c s = after_cleanupSound c s"
    and "cleanupSound True c s =
           after_cleanupSound c
             (s\<lparr>ttsRequestId := ttsRequestId s + 1, isGeneratingAudio := False,
                 audioReady := False, ttsError := None,
                 trace := trace s @ [SetIsGeneratingAudio False, SetAudioReady False,
                                      SetTtsError None]\<rparr>)"
  using assms by (simp_all add: cleanupSound_def invalidate_def setter_defs emit_def)

lemma cleanupSound_with_resource:
  assumes "soundRef s = Some h"
    and "stopped = Resolved \<or> stopped = Rejected e1"
    and "unloaded = Resolved \<or> unloaded = Rejected e2"
  shows "\<exists>s2. step (step (cleanupSound b c s) (Settle (AwaitStop h c) stopped))
                (Settle (AwaitUnload h c) unloaded) = after_cleanupSound c s2 \<and>
              soundRef s2 = None \<and> sound s2 = None \<and> \<not> isPlaying s2 \<and>
              filter is_unhandled (trace s2) = filter is_unhandled (trace s)"
  using assms
  by (cases b)
     (auto simp: cleanupSound_def invalidate_def cleanupSound_release_def setter_defs emit_def
                 await_def)

lemma invalidate_audio:
  "sound (invalidate s) = sound s" "isPlaying (invalidate s) = isPlaying s"
  by (simp_all add: invalidate_def setter_defs emit_def)

text \<open>
  Claim C9, as amended. Take a state in which a sound is held, any caller, and any
  settlement (fulfilled or rejected) of the \<^verbatim>\<open>stopAsync\<close> and \<^verbatim>\<open>unloadAsync\<close> promises that
  \<^verbatim>\<open>cleanupSound\<close> awaits. When the call has run to completion, \<open>soundRef\<close> and \<open>sound\<close> are
  null and \<open>isPlaying\<close> is false, and no rejection has gone unhandled. Any later call
  finds no resource, makes no call on the audio engine and leaves these three as they
  are, so that the same holds after it. With \<^verbatim>\<open>invalidateRequests = false\<close> the later call
  does nothing at all before control returns to its caller; with the default
  \<^verbatim>\<open>invalidateRequests = true\<close> it is not without effect: it increments \<open>ttsRequestId\<close> and
  calls the setters that clear \<open>isGeneratingAudio\<close>, \<open>audioReady\<close> and \<open>ttsError\<close>.
\<close>

theorem cleanupSound_repeated:
  assumes "soundRef s = Some h"
    and "stopped = Resolved \<or> stopped = Rejected e1"
    and "unloaded = Resolved \<or> unloaded = Rejected e2"
    and "s3 = step (step (cleanupSound b c s) (Settle (AwaitStop h c) stopped))
                (Settle (AwaitUnload h c) unloaded)"
  shows "soundRef s3 = None \<and> sound s3 = None \<and> \<not> isPlaying s3 \<and>
         filter is_unhandled (trace s3) = filter is_unhandled (trace s) \<and>
         cleanupSound False c' s3 = after_cleanupSound c' s3 \<and>
         cleanupSound True c' s3 =
           after_cleanupSound c'
             (s3\<lparr>ttsRequestId := ttsRequestId s3 + 1, isGeneratingAudio := False,
                 audioReady := False, ttsError := None,
                 trace := trace s3 @ [SetIsGeneratingAudio False, SetAudioReady False,
                                      SetTtsError None]\<rparr>) \<and>
         soundRef (cleanupSound b' c' s3) = None \<and> sound (cleanupSound b' c' s3) = None \<and>
         \<not> isPlaying (cleanupSound b' c' s3)"
proof -
  obtain s2 where s2: "s3 = after_cleanupSound c s2" "soundRef s2 = None" "sound s2 = None"
      "\<not> isPlaying s2" "filter is_unhandled (trace s2) = filter is_unhandled (trace s)"
    using cleanupSound_with_resource [OF assms(1,2,3), of b c] assms(4) by blast
  have n: "soundRef s3 = None" "sound s3 = None" "\<not> isPlaying s3"
      "filter is_unhandled (trace s3) = filter is_unhandled (trace s)"
    by (simp_all add: s2 after_cleanupSound_audio)
  have later: "soundRef (cleanupSound b' c' s3) = None" "sound (cleanupSound b' c' s3) = None"
      "\<not> isPlaying (cleanupSound b' c' s3)"
    using n(1,2,3)
    by (simp_all add: cleanupSound_def Let_def after_cleanupSound_audio invalidate_audio)
  from n later cleanupSound_no_resource [OF n(1), of c'] show ?thesis
    by blast
qed

theorem cleanupSound_repeated_witness:
  "soundRef (run audio_ready App_init) = Some 0 \<and>
   soundRef (step (step (cleanupSound True CallerTakeAnother (run audio_ready App_init))
                     (Settle (AwaitStop 0 CallerTakeAnother) (Rejected (JsError ''stop failed''))))
               (Settle (AwaitUnload 0 CallerTakeAnother) Resolved)) = None \<and>
   \<not> isPlaying (step (step (cleanupSound True CallerTakeAnother (run audio_ready App_init))
                     (Settle (AwaitStop 0 CallerTakeAnother) (Rejected (JsError ''stop failed''))))
               (Settle (AwaitUnload 0 CallerTakeAnother) Resolved)) \<and>
   soundRef (cleanupSound True CallerHandleCapture
              (step (step (cleanupSound True CallerTakeAnother (run audio_ready App_init))
                     (Settle (AwaitStop 0 CallerTakeAnother) (Rejected (JsError ''stop failed''))))
               (Settle (AwaitUnload 0 CallerTakeAnother) Resolved))) = None"
proof -
  have a: "soundRef (run audio_ready App_init) = Some 0"
    by (simp add: model_defs example_defs audio_ready_def)
  from cleanupSound_repeated
         [OF a, where stopped = "Rejected (JsError ''stop failed'')" and ?e1.0 = "JsError ''stop failed''"
            and unloaded = Resolved and b = True and c = CallerTakeAnother
            and b' = True and c' = CallerHandleCapture, OF _ _ refl]
  show ?thesis
    using a by blast
qed

text \<open>
  The claim as worded has a call that finds no resource return without effect. After
  \<^verbatim>\<open>Take Another Photo\<close> on the first page no sound is held, and one more call with the
  default argument moves the request counter on by one.
\<close>

theorem cleanupSound_repeated_counterexample:
  "soundRef (run superseded App_init) = None \<and>
   ttsRequestId (cleanupSound True CallerTakeAnother (run superseded App_init)) =
     ttsRequestId (run superseded App_init) + 1"
  by (simp add: model_defs example_defs superseded_def)

end
